theory Spec2Isabelle
  imports Main
begin

section \<open>Python values, exceptions and formatted messages\<close>

text \<open>
  The orchestrator of \<^verbatim>\<open>src/Backend/server.py\<close> is embedded as state-passing
  functions. An exception of the source is a value of \<open>pyexn\<close>; a function that may
  raise returns \<open>pyexn + 'a\<close> (\<open>Inl\<close> the exception). An f-string is the list of its
  parts: literal text, an interpolated number, or an interpolated exception
  (\<^verbatim>\<open>{str(e)}\<close>), so that the exception wrapped into a message stays visible.
  Wall-clock values (\<^verbatim>\<open>time.time()\<close>) are left out of the model.
\<close>

datatype pyexn =
    HTTPException nat "fmt list"
  | JSONDecodeError
  | BadZipFile
  | AttributeError string
  | KeyError string
  | TypeError
  | OSError string
  | UnboundLocalError string
  | PyException string
and fmt = S string | N int | X pyexn

type_synonym message = "fmt list"

type_synonym bytes = "nat list"

subsection \<open>AgentState\<close>

datatype AgentState = IDLE | RUNNING | COMPLETED | FAILED

fun state_value :: "AgentState \<Rightarrow> string" where
  "state_value IDLE = ''Idle''"
| "state_value RUNNING = ''Running''"
| "state_value COMPLETED = ''Completed''"
| "state_value FAILED = ''Failed''"

subsection \<open>str.lower and str.endswith\<close>

definition lower_char :: "char \<Rightarrow> char" where
  "lower_char c =
     (case map_of (zip ''ABCDEFGHIJKLMNOPQRSTUVWXYZ'' ''abcdefghijklmnopqrstuvwxyz'') c of
        None \<Rightarrow> c
      | Some d \<Rightarrow> d)"

definition py_lower :: "string \<Rightarrow> string" where
  "py_lower s = map lower_char s"

definition endswith :: "string \<Rightarrow> string \<Rightarrow> bool" where
  "endswith s suf = (length suf \<le> length s \<and> drop (length s - length suf) s = suf)"

definition startswith :: "string \<Rightarrow> string \<Rightarrow> bool" where
  "startswith s pre = (take (length pre) s = pre)"

section \<open>SSELogHandler: the progress handler\<close>

text \<open>
  A log record carries the message, the level name and the optional attributes passed
  through \<^verbatim>\<open>extra=\<close>; \<^verbatim>\<open>getattr(record, k, default)\<close> reads them.
\<close>

record LogRecord =
  levelname :: string
  msg :: message
  r_event_type :: "string option"
  r_stage :: "string option"
  r_agent :: "string option"
  r_state :: "string option"

text \<open>The dictionary put on the queue by \<^verbatim>\<open>emit\<close> (without the timestamp).\<close>

record Event =
  event_type :: string
  level :: string
  message :: message
  stage :: string
  agent :: "string option"
  state :: "string option"
  current_agent :: "string option"
  progress :: int
  stage_progress :: int
  stage_description :: string

text \<open>
  The handler object. \<open>queue\<close> is the sequence of events put so far, oldest first
  (the stream endpoint only removes events from the front).
\<close>

record SSELogHandler =
  queue :: "Event list"
  h_progress :: int
  total_stages :: int
  h_current_agent :: "string option"

definition SSELogHandler_init :: SSELogHandler where
  "SSELogHandler_init =
     \<lparr>queue = [], h_progress = 0, total_stages = 6, h_current_agent = None\<rparr>"

definition stage_descriptions :: "string \<rightharpoonup> string" where
  "stage_descriptions =
     [''ingestor'' \<mapsto> ''Ingesting VB6 project files from ZIP or GitHub'',
      ''parser'' \<mapsto> ''Parsing VB6 code to extract procedures and events'',
      ''context_analyzer'' \<mapsto> ''Analyzing application context and workflow'',
      ''summarizer'' \<mapsto> ''Summarizing parsed data for code generation'',
      ''generator'' \<mapsto> ''Generating .NET 9 Worker Service code'',
      ''filebuilder'' \<mapsto> ''Building and packaging the .NET project ZIP'']"

definition stage_weights :: "string \<rightharpoonup> int" where
  "stage_weights =
     [''ingestor'' \<mapsto> 10, ''parser'' \<mapsto> 30, ''context_analyzer'' \<mapsto> 20,
      ''summarizer'' \<mapsto> 10, ''generator'' \<mapsto> 20, ''filebuilder'' \<mapsto> 10]"

definition get_stage_progress :: "string \<Rightarrow> string option \<Rightarrow> int" where
  "get_stage_progress stg st =
     (if st = Some (state_value COMPLETED)
      then (case stage_weights (py_lower stg) of None \<Rightarrow> 10 | Some wt \<Rightarrow> wt)
      else 0)"

text \<open>
  \<^verbatim>\<open>SSELogHandler.emit\<close>. The body runs under \<^verbatim>\<open>try ... except Exception:
  self.handleError(record)\<close>; the one statement that can raise on these inputs is the
  floor division by \<open>total_stages\<close>, and then nothing is queued (the assignment to
  \<open>current_agent\<close> before it stays).
\<close>

definition emit :: "LogRecord \<Rightarrow> SSELogHandler \<Rightarrow> SSELogHandler" where
  "emit record h =
     (let ev_type = (case r_event_type record of None \<Rightarrow> ''log'' | Some t \<Rightarrow> t);
          stg = (case r_stage record of None \<Rightarrow> ''general'' | Some s \<Rightarrow> s);
          ag = r_agent record;
          st = r_state record;
          h1 = (if ev_type = ''state_update'' \<and> st = Some (state_value RUNNING)
                then h\<lparr>h_current_agent := ag\<rparr>
                else if ev_type = ''state_update''
                        \<and> (st = Some (state_value COMPLETED) \<or> st = Some (state_value FAILED))
                then h\<lparr>h_current_agent :=
                          (if h_current_agent h = ag then None else h_current_agent h)\<rparr>
                else h)
      in if ev_type = ''state_update'' \<and> st = Some (state_value COMPLETED)
            \<and> total_stages h1 = 0
         then h1
         else
           let h2 = (if ev_type = ''state_update'' \<and> st = Some (state_value COMPLETED)
                     then h1\<lparr>h_progress := min (h_progress h1 + 100 div total_stages h1) 100\<rparr>
                     else h1)
           in h2\<lparr>queue := queue h2 @
                  [\<lparr>event_type = ev_type, level = levelname record, message = msg record,
                    stage = stg, agent = ag, state = st,
                    current_agent = h_current_agent h2, progress = h_progress h2,
                    stage_progress = get_stage_progress stg st,
                    stage_description =
                      (case stage_descriptions (py_lower stg) of
                         None \<Rightarrow> ''General processing'' | Some d \<Rightarrow> d)\<rparr>]\<rparr>)"

text \<open>The handler processing a sequence of records, in order.\<close>

fun emit_all :: "LogRecord list \<Rightarrow> SSELogHandler \<Rightarrow> SSELogHandler" where
  "emit_all [] h = h"
| "emit_all (r # rs) h = emit_all rs (emit r h)"

text \<open>A record is a completion when it is a state update carrying state Completed.\<close>

definition is_completed_update :: "LogRecord \<Rightarrow> bool" where
  "is_completed_update r =
     (r_event_type r = Some ''state_update'' \<and> r_state r = Some (state_value COMPLETED))"

text \<open>The events put on the queue between an earlier handler state and a later one.\<close>

definition emitted :: "SSELogHandler \<Rightarrow> SSELogHandler \<Rightarrow> Event list" where
  "emitted h0 h1 = drop (length (queue h0)) (queue h1)"

section \<open>Agents, the logger and the shared state\<close>

text \<open>
  The six stage agents owned by \<^verbatim>\<open>MCP\<close>, in the order of \<^verbatim>\<open>MCP.agents\<close>.
  \<^verbatim>\<open>ParserAgent\<close> is one object, shared by all per-file invocations.
\<close>

datatype agent =
    IngestorAgent | ParserAgent | ContextAnalyzerAgent
  | SummarizerAgent | GeneratorAgent | FileBuilderAgent

fun agent_name :: "agent \<Rightarrow> string" where
  "agent_name IngestorAgent = ''IngestorAgent''"
| "agent_name ParserAgent = ''ParserAgent''"
| "agent_name ContextAnalyzerAgent = ''ContextAnalyzerAgent''"
| "agent_name SummarizerAgent = ''SummarizerAgent''"
| "agent_name GeneratorAgent = ''GeneratorAgent''"
| "agent_name FileBuilderAgent = ''FileBuilderAgent''"

definition agents :: "agent list" where
  "agents = [IngestorAgent, ParserAgent, ContextAnalyzerAgent,
             SummarizerAgent, GeneratorAgent, FileBuilderAgent]"

text \<open>
  The mutable state of the process: the module-level handler, the \<open>state\<close> attribute of
  each agent, and the files of \<^verbatim>\<open>OUTPUT_DIR\<close>, where the file
  \<^verbatim>\<open>OUTPUT_DIR / f"{conversion_id}.zip"\<close> is keyed by its conversion identifier.
  File operations on it succeed (no operating-system failure is modelled).
\<close>

record world =
  sse_handler :: SSELogHandler
  agent_state :: "agent \<Rightarrow> AgentState"
  OUTPUT_DIR :: "string \<rightharpoonup> bytes"

definition world_init :: world where
  "world_init = \<lparr>sse_handler = SSELogHandler_init, agent_state = (\<lambda>a. IDLE),
                 OUTPUT_DIR = Map.empty\<rparr>"

text \<open>
  \<^verbatim>\<open>logger.<level>(message, extra={...})\<close>: the module's logger hands the record to
  the handler. The arguments after the message are the keys \<open>event_type\<close>, \<open>stage\<close>,
  \<open>agent\<close>, \<open>state\<close> of \<^verbatim>\<open>extra\<close>, \<open>None\<close> when absent.
\<close>

definition logger_log ::
  "string \<Rightarrow> message \<Rightarrow> string option \<Rightarrow> string option \<Rightarrow> string option
     \<Rightarrow> string option \<Rightarrow> world \<Rightarrow> world" where
  "logger_log lvl m et stg ag st w =
     w\<lparr>sse_handler :=
         emit \<lparr>levelname = lvl, msg = m, r_event_type = et, r_stage = stg,
               r_agent = ag, r_state = st\<rparr> (sse_handler w)\<rparr>"

text \<open>A plain log line with only a stage in \<^verbatim>\<open>extra\<close>.\<close>

definition log_line :: "string \<Rightarrow> message \<Rightarrow> string \<Rightarrow> world \<Rightarrow> world" where
  "log_line lvl m stg w = logger_log lvl m None (Some stg) None None w"

text \<open>\<^verbatim>\<open>BaseAgent.set_state\<close>; the empty message is the default argument.\<close>

definition set_state :: "agent \<Rightarrow> AgentState \<Rightarrow> message \<Rightarrow> world \<Rightarrow> world" where
  "set_state a s m w =
     logger_log ''INFO''
       (if m = [] then [S (agent_name a), S '' state changed to '', S (state_value s)] else m)
       (Some ''state_update'') (Some (py_lower (agent_name a))) (Some (agent_name a))
       (Some (state_value s))
       (w\<lparr>agent_state := (agent_state w)(a := s)\<rparr>)"

text \<open>\<^verbatim>\<open>MCP.set_pipeline_state\<close>: an event only, no agent changes state.\<close>

definition set_pipeline_state :: "AgentState \<Rightarrow> message \<Rightarrow> world \<Rightarrow> world" where
  "set_pipeline_state s m w =
     logger_log ''INFO'' m (Some ''state_update'') (Some ''pipeline'') (Some ''MCP'')
       (Some (state_value s)) w"

text \<open>Python's slice \<^verbatim>\<open>xs[:k]\<close>; a negative \<open>k\<close> counts from the end.\<close>

definition py_take :: "int \<Rightarrow> 'a list \<Rightarrow> 'a list" where
  "py_take k xs = (if 0 \<le> k then take (nat k) xs else take (length xs - nat (- k)) xs)"

section \<open>os.path on POSIX\<close>

text \<open>
  \<^verbatim>\<open>os.path.join\<close>, \<^verbatim>\<open>os.path.normpath\<close> and \<^verbatim>\<open>os.path.abspath\<close> of the
  standard library (posixpath), for two arguments and with the current directory as a
  parameter.
\<close>

definition path_join :: "string \<Rightarrow> string \<Rightarrow> string" where
  "path_join a b =
     (if startswith b ''/'' then b
      else if a = [] \<or> endswith a ''/'' then a @ b
      else a @ ''/'' @ b)"

fun split_slash :: "string \<Rightarrow> string list" where
  "split_slash [] = [[]]"
| "split_slash (c # cs) =
     (if c = CHR ''/'' then [] # split_slash cs
      else (case split_slash cs of [] \<Rightarrow> [[c]] | x # xs \<Rightarrow> (c # x) # xs))"

fun join_slash :: "string list \<Rightarrow> string" where
  "join_slash [] = []"
| "join_slash [x] = x"
| "join_slash (x # y # ys) = x @ ''/'' @ join_slash (y # ys)"

text \<open>The loop of \<^verbatim>\<open>normpath\<close> over the components; \<open>acc\<close> is \<open>new_comps\<close>.\<close>

fun norm_comps :: "bool \<Rightarrow> string list \<Rightarrow> string list \<Rightarrow> string list" where
  "norm_comps initial_slashes acc [] = acc"
| "norm_comps initial_slashes acc (part # parts) =
     (if part = [] \<or> part = ''.'' then norm_comps initial_slashes acc parts
      else if part \<noteq> ''..'' \<or> (\<not> initial_slashes \<and> acc = [])
              \<or> (acc \<noteq> [] \<and> last acc = ''..'')
      then norm_comps initial_slashes (acc @ [part]) parts
      else if acc \<noteq> [] then norm_comps initial_slashes (butlast acc) parts
      else norm_comps initial_slashes acc parts)"

definition normpath :: "string \<Rightarrow> string" where
  "normpath path =
     (if path = [] then ''.''
      else
        let initial_slashes =
              (if startswith path ''/''
               then (if startswith path ''//'' \<and> \<not> startswith path ''///''
                     then 2 else 1)
               else (0::nat));
            comps = norm_comps (initial_slashes \<noteq> 0) [] (split_slash path);
            p = replicate initial_slashes CHR ''/'' @ join_slash comps
        in if p = [] then ''.'' else p)"

definition abspath :: "string \<Rightarrow> string \<Rightarrow> string" where
  "abspath cwd path =
     normpath (if startswith path ''/'' then path else path_join cwd path)"

section \<open>Inputs and the external world\<close>

text \<open>
  An uploaded file: its declared size (\<^verbatim>\<open>UploadFile.size\<close>, possibly \<open>None\<close>) and what
  \<^verbatim>\<open>zipfile.ZipFile\<close> finds in it: not a zip archive (\<^verbatim>\<open>BadZipFile\<close>), or the
  entry names of \<^verbatim>\<open>namelist()\<close>.
\<close>

datatype archive = NotAZip | Zip "string list"

record UploadFile =
  upload_size :: "nat option"
  upload_archive :: archive

text \<open>An entry of the ingestor's result list: the dictionary with keys path and name.\<close>

record FileInfo =
  path :: string
  name :: string

text \<open>Decoded JSON values (numbers other than integers do not occur in the model).\<close>

datatype json =
    JNull | JBool bool | JInt int | JStr string
  | JList "json list" | JDict "(string \<times> json) list"

text \<open>The prompt handed to the language model, by the data interpolated into it.\<close>

datatype prompt = ParserPrompt string string | ContextPrompt "json list"

text \<open>A value the templating helpers hand to the project builder.\<close>

datatype pyval = PyStr string | PyNone | PyObject

text \<open>What writing the project archive does to the artifact file.\<close>

datatype pack_outcome =
    StagingFails pyexn
  | ZipFails pyexn bytes
  | ZipWritten bytes

text \<open>The five constant texts of the generated project (the literals of the source).\<close>

record templates =
  csproj :: string
  program_cs :: string
  appsettings :: string
  dev_appsettings :: string
  launch_settings :: string

text \<open>
  Everything the pipeline reads from outside: the configuration read from the process
  environment at import time, the results of library calls on the file system, the
  remote service and the templating helpers. Each field is named after what it stands for:
  \<^item> \<open>MAX_FILE_SIZE_MB\<close>, \<open>MAX_CODE_LENGTH\<close>, \<open>MAX_FILES\<close>: \<^verbatim>\<open>int(os.getenv(...))\<close>;
  \<^item> \<open>cwd\<close>: the current directory; \<open>temp_dir\<close>: the name chosen by
    \<^verbatim>\<open>tempfile.TemporaryDirectory()\<close>;
  \<^item> \<open>walk\<close>: what \<^verbatim>\<open>os.walk(temp_dir)\<close> yields once the input is unpacked or cloned,
    as pairs of a directory and its file names;
  \<^item> \<open>re_match_repo\<close>: whether the repository pattern matches; \<open>clone_from\<close>: the
    exception of \<^verbatim>\<open>Repo.clone_from\<close>, if any;
  \<^item> \<open>read_file\<close>: opening and reading a file; \<open>line_count\<close>:
    \<^verbatim>\<open>len(code.splitlines())\<close>;
  \<^item> \<open>chat\<close>: the outcome of the \<open>n\<close>-th call of the chat-completion endpoint for a
    prompt (an exception, or the returned content, possibly \<open>None\<close>);
  \<^item> \<open>clean_json\<close>: the regular-expression clean-up \<^verbatim>\<open>clean_json_response\<close>;
    \<open>json_loads\<close>: \<^verbatim>\<open>json.loads\<close>, \<open>None\<close> for \<^verbatim>\<open>JSONDecodeError\<close>;
  \<^item> \<open>summarize\<close>: the merge of the summarizer's \<^verbatim>\<open>try\<close> body, giving the three
    counts of its message; \<open>yaml_dump\<close>: the \<^verbatim>\<open>yaml.dump\<close> of the merged summary;
    \<open>default_yaml\<close>: the dump of the empty summary;
  \<^item> \<open>comprehensive_worker\<close>: \<^verbatim>\<open>yaml.safe_load\<close> followed by
    \<^verbatim>\<open>_generate_comprehensive_worker\<close>; \<open>enhanced_worker_template\<close>:
    \<^verbatim>\<open>_get_enhanced_worker_template\<close>; \<open>texts\<close>: the constant project files;
  \<^item> \<open>uuid4\<close>: the fresh identifier; \<open>package\<close>: staging the files and writing the zip
    (an exception before the archive file is opened, an exception after it was opened
    with the bytes written so far, or the finished bytes);
    \<open>read_back\<close>: the exception of reading the finished archive, if any.
\<close>

record env =
  MAX_FILE_SIZE_MB :: int
  MAX_CODE_LENGTH :: int
  MAX_FILES :: int
  cwd :: string
  temp_dir :: string
  walk :: "(string \<times> string list) list"
  re_match_repo :: "string \<Rightarrow> bool"
  clone_from :: "string \<Rightarrow> pyexn option"
  read_file :: "string \<Rightarrow> pyexn + string"
  line_count :: "string \<Rightarrow> int"
  chat :: "prompt \<Rightarrow> nat \<Rightarrow> pyexn + string option"
  clean_json :: "string \<Rightarrow> string"
  json_loads :: "string \<Rightarrow> json option"
  summarize :: "json list \<Rightarrow> pyexn + (int \<times> int \<times> int)"
  yaml_dump :: "json list \<Rightarrow> pyexn + string"
  default_yaml :: string
  comprehensive_worker :: "string \<Rightarrow> json \<Rightarrow> pyexn + pyval"
  enhanced_worker_template :: "string \<Rightarrow> json \<Rightarrow> pyexn + pyval"
  texts :: templates
  uuid4 :: string
  package :: "(string \<times> string) list \<Rightarrow> pack_outcome"
  read_back :: "pyexn option"

section \<open>IngestorAgent\<close>

definition ALLOWED_GITHUB_DOMAINS :: "string list" where
  "ALLOWED_GITHUB_DOMAINS = [''github.com'']"

text \<open>\<^verbatim>\<open>sub in s\<close> on strings.\<close>

fun is_substring :: "string \<Rightarrow> string \<Rightarrow> bool" where
  "is_substring sub [] = (sub = [])"
| "is_substring sub (c # cs) = (startswith (c # cs) sub \<or> is_substring sub cs)"

text \<open>\<^verbatim>\<open>s.strip('/')\<close>.\<close>

definition strip_slash :: "string \<Rightarrow> string" where
  "strip_slash s =
     rev (dropWhile (\<lambda>c. c = CHR ''/'') (rev (dropWhile (\<lambda>c. c = CHR ''/'') s)))"

text \<open>\<^verbatim>\<open>re.sub(r'[^a-zA-Z0-9:/.-]', '', s)\<close>.\<close>

definition sanitize_link :: "string \<Rightarrow> string" where
  "sanitize_link s =
     filter (\<lambda>c. c \<in> set (''abcdefghijklmnopqrstuvwxyz'' @ ''ABCDEFGHIJKLMNOPQRSTUVWXYZ''
                             @ ''0123456789'' @ '':/.-'')) s"

text \<open>The test of one archive entry: the source rejects the archive when it is false.\<close>

definition entry_passes_check :: "string \<Rightarrow> string \<Rightarrow> string \<Rightarrow> bool" where
  "entry_passes_check cur tmp entry =
     startswith (abspath cur (path_join tmp entry)) (abspath cur tmp)"

text \<open>The \<^verbatim>\<open>if zip_file:\<close> branch of \<^verbatim>\<open>IngestorAgent.run\<close>.\<close>

definition ingest_zip :: "env \<Rightarrow> UploadFile \<Rightarrow> string \<Rightarrow> world \<Rightarrow> (pyexn + unit) \<times> world" where
  "ingest_zip e zf tmp w =
     (if (case upload_size zf of
            None \<Rightarrow> False
          | Some n \<Rightarrow> n \<noteq> 0 \<and> int n > MAX_FILE_SIZE_MB e * 1024 * 1024)
      then
        (Inl (HTTPException 400
                [S ''File too large. Maximum size: '', N (MAX_FILE_SIZE_MB e), S ''MB'']),
         set_state IngestorAgent FAILED
           [S ''File too large. Maximum size: '', N (MAX_FILE_SIZE_MB e), S ''MB''] w)
      else
        let w1 = set_state IngestorAgent RUNNING [S ''Saving uploaded ZIP file''] w
        in case upload_archive zf of
             NotAZip \<Rightarrow>
               (Inl (HTTPException 400 [S ''Invalid or corrupted ZIP file'']),
                set_state IngestorAgent FAILED [S ''Invalid or corrupted ZIP file''] w1)
           | Zip names \<Rightarrow>
               if list_all (entry_passes_check (cwd e) tmp) names
               then (Inr (),
                     set_state IngestorAgent RUNNING [S ''Successfully extracted ZIP file''] w1)
               else (Inl (HTTPException 400 [S ''Path traversal detected in ZIP file'']),
                     set_state IngestorAgent FAILED
                       [S ''Path traversal detected in ZIP file''] w1))"

text \<open>The \<^verbatim>\<open>elif github_link:\<close> branch.\<close>

definition ingest_github :: "env \<Rightarrow> string \<Rightarrow> string \<Rightarrow> world \<Rightarrow> (pyexn + unit) \<times> world" where
  "ingest_github e link tmp w =
     (if \<not> list_ex (\<lambda>d. is_substring d link) ALLOWED_GITHUB_DOMAINS
      then (Inl (HTTPException 400 [S ''GitHub domain not allowed'']),
            set_state IngestorAgent FAILED [S ''GitHub domain not allowed''] w)
      else if \<not> re_match_repo e (strip_slash link)
      then (Inl (HTTPException 400 [S ''Invalid GitHub repository URL'']),
            set_state IngestorAgent FAILED [S ''Invalid GitHub repository URL''] w)
      else
        let link' = sanitize_link link;
            w1 = set_state IngestorAgent RUNNING
                   [S ''Cloning GitHub repository: '', S link'] w
        in case clone_from e link' of
             Some ex \<Rightarrow>
               (Inl (HTTPException 400 [S ''Failed to clone GitHub repo: '', X ex]),
                set_state IngestorAgent FAILED [S ''Failed to clone GitHub repo: '', X ex] w1)
           | None \<Rightarrow>
               (Inr (),
                set_state IngestorAgent RUNNING
                  [S ''Successfully cloned repository: '', S link'] w1))"

definition is_vb6_file :: "string \<Rightarrow> bool" where
  "is_vb6_file fname =
     (let l = py_lower fname
      in endswith l ''.frm'' \<or> endswith l ''.bas'' \<or> endswith l ''.cls'' \<or> endswith l ''.vbp'')"

definition collect_vb6_files :: "(string \<times> string list) list \<Rightarrow> FileInfo list" where
  "collect_vb6_files walked =
     concat (map (\<lambda>(root, files).
                    map (\<lambda>fname. \<lparr>path = path_join root fname, name = fname\<rparr>)
                        (filter is_vb6_file files))
                 walked)"

text \<open>
  \<^verbatim>\<open>IngestorAgent.run\<close>. An \<^verbatim>\<open>UploadFile\<close> object is always true; a link is true when
  it is a non-empty string. With neither, the fresh directory holds no file. Every
  exception of the body passes the outer handler, which sets the state Failed once more
  and re-raises.
\<close>

definition IngestorAgent_run ::
  "env \<Rightarrow> UploadFile option \<Rightarrow> string option \<Rightarrow> string \<Rightarrow> world
     \<Rightarrow> (pyexn + FileInfo list) \<times> world" where
  "IngestorAgent_run e zip_file github_link tmp w =
     (let w0 = set_state IngestorAgent RUNNING [S ''Starting ingestion process''] w;
          fetched =
            (case zip_file of
               Some zf \<Rightarrow> (case ingest_zip e zf tmp w0 of (r, w1) \<Rightarrow> (r, True, w1))
             | None \<Rightarrow>
                 (case github_link of
                    None \<Rightarrow> (Inr (), False, w0)
                  | Some link \<Rightarrow>
                      if link = [] then (Inr (), False, w0)
                      else (case ingest_github e link tmp w0 of (r, w1) \<Rightarrow> (r, True, w1))))
      in case fetched of
           (Inl ex, _, w1) \<Rightarrow>
             (Inl ex, set_state IngestorAgent FAILED [S ''IngestorAgent failed: '', X ex] w1)
         | (Inr _, materialised, w1) \<Rightarrow>
             let vb6_files = collect_vb6_files (if materialised then walk e else [(tmp, [])])
             in if vb6_files = []
                then
                  let ex = HTTPException 400 [S ''No VB6 files (.frm, .bas, .cls, .vbp) found''];
                      w2 = set_state IngestorAgent FAILED
                             [S ''No VB6 files (.frm, .bas, .cls, .vbp) found''] w1
                  in (Inl ex,
                      set_state IngestorAgent FAILED [S ''IngestorAgent failed: '', X ex] w2)
                else
                  (Inr vb6_files,
                   set_state IngestorAgent COMPLETED
                     [S ''Found '', N (int (length vb6_files)), S '' VB6 files to process''] w1))"

section \<open>Operations on decoded JSON\<close>

text \<open>
  The dictionary and \<^verbatim>\<open>len\<close> operations of Python on decoded values, with the
  exception each raises on a value of the wrong kind.
\<close>

fun dict_set :: "string \<Rightarrow> json \<Rightarrow> (string \<times> json) list \<Rightarrow> (string \<times> json) list" where
  "dict_set k v [] = [(k, v)]"
| "dict_set k v ((k', v') # kvs) =
     (if k' = k then (k, v) # kvs else (k', v') # dict_set k v kvs)"

fun py_get :: "json \<Rightarrow> string \<Rightarrow> json \<Rightarrow> pyexn + json" where
  "py_get (JDict kvs) k d = Inr (case map_of kvs k of None \<Rightarrow> d | Some v \<Rightarrow> v)"
| "py_get _ k d = Inl (AttributeError ''get'')"

fun py_getitem :: "json \<Rightarrow> string \<Rightarrow> pyexn + json" where
  "py_getitem (JDict kvs) k = (case map_of kvs k of None \<Rightarrow> Inl (KeyError k) | Some v \<Rightarrow> Inr v)"
| "py_getitem _ k = Inl TypeError"

fun py_setitem :: "json \<Rightarrow> string \<Rightarrow> json \<Rightarrow> pyexn + json" where
  "py_setitem (JDict kvs) k v = Inr (JDict (dict_set k v kvs))"
| "py_setitem _ k v = Inl TypeError"

fun py_len :: "json \<Rightarrow> pyexn + int" where
  "py_len (JStr s) = Inr (int (length s))"
| "py_len (JList xs) = Inr (int (length xs))"
| "py_len (JDict kvs) = Inr (int (length kvs))"
| "py_len _ = Inl TypeError"

text \<open>\<^verbatim>\<open>len(result.get(k, []))\<close>.\<close>

definition len_of_get :: "json \<Rightarrow> string \<Rightarrow> pyexn + int" where
  "len_of_get r k = (case py_get r k (JList []) of Inl ex \<Rightarrow> Inl ex | Inr v \<Rightarrow> py_len v)"

section \<open>The language-model wrapper\<close>

text \<open>
  \<^verbatim>\<open>CustomAzureOpenAI.forward\<close>: up to \<open>max_retries = 5\<close> calls; each failed call
  is logged, the last failure is re-raised. \<open>lm_attempts call k attempt\<close> runs the
  remaining \<open>k\<close> iterations of the loop from iteration \<open>attempt\<close>.
\<close>

fun lm_attempts ::
  "(nat \<Rightarrow> pyexn + string option) \<Rightarrow> nat \<Rightarrow> nat \<Rightarrow> world \<Rightarrow> (pyexn + string option) \<times> world" where
  "lm_attempts call 0 attempt w = (Inr None, w)"
| "lm_attempts call (Suc k) attempt w =
     (case call attempt of
        Inr content \<Rightarrow> (Inr content, w)
      | Inl ex \<Rightarrow>
          let w1 = log_line ''ERROR''
                     [S ''Azure OpenAI error (attempt '', N (int attempt + 1), S ''/'', N 5,
                      S ''): '', X ex] ''ai_processing'' w
          in if attempt < 5 - 1 then lm_attempts call k (Suc attempt) w1 else (Inl ex, w1))"

definition CustomAzureOpenAI_forward ::
  "env \<Rightarrow> prompt \<Rightarrow> world \<Rightarrow> (pyexn + string option) \<times> world" where
  "CustomAzureOpenAI_forward e p w = lm_attempts (chat e p) 5 0 w"

section \<open>ParserModule and ParserAgent\<close>

text \<open>The dictionary returned on every degraded path.\<close>

definition empty_result :: "string \<Rightarrow> string \<Rightarrow> int \<Rightarrow> json" where
  "empty_result file_name module_type total_lines =
     JDict [(''procedures'', JList []), (''events'', JList []), (''globals'', JList []),
            (''dependencies'', JList []), (''main_logic'', JDict []),
            (''metadata'', JDict [(''file_name'', JStr file_name),
                                  (''module_type'', JStr module_type),
                                  (''total_lines'', JInt total_lines)])]"

text \<open>
  The statements of \<^verbatim>\<open>ParserModule.forward\<close> after a successful decoding: the line
  count is stored into the metadata and the two lengths of the log message are taken.
\<close>

definition parser_decorate :: "json \<Rightarrow> int \<Rightarrow> pyexn + (json \<times> int \<times> int)" where
  "parser_decorate result nlines =
     (case py_getitem result ''metadata'' of
        Inl ex \<Rightarrow> Inl ex
      | Inr md \<Rightarrow>
          (case py_setitem md ''total_lines'' (JInt nlines) of
             Inl ex \<Rightarrow> Inl ex
           | Inr md' \<Rightarrow>
               (case py_setitem result ''metadata'' md' of
                  Inl ex \<Rightarrow> Inl ex
                | Inr result' \<Rightarrow>
                    (case len_of_get result' ''procedures'' of
                       Inl ex \<Rightarrow> Inl ex
                     | Inr np \<Rightarrow>
                         (case len_of_get result' ''events'' of
                            Inl ex \<Rightarrow> Inl ex
                          | Inr ne \<Rightarrow> Inr (result', np, ne))))))"

text \<open>
  \<^verbatim>\<open>ParserModule.forward\<close>. Each exception of the \<^verbatim>\<open>try\<close> body meets its handler
  where it arises. An exception of the wrapper that is itself a \<^verbatim>\<open>JSONDecodeError\<close>
  reaches the first handler while \<open>raw\<close> is still unbound, and formatting the message
  raises \<^verbatim>\<open>UnboundLocalError\<close> out of the function.
\<close>

definition ParserModule_forward ::
  "env \<Rightarrow> string \<Rightarrow> string \<Rightarrow> world \<Rightarrow> (pyexn + json) \<times> world" where
  "ParserModule_forward e code file_name w =
     (let w0 = log_line ''INFO'' [S ''Starting VB6 code parsing''] ''parser'' w;
          degraded = empty_result file_name ''Unknown'' (line_count e code)
      in case CustomAzureOpenAI_forward e (ParserPrompt file_name (take 8000 code)) w0 of
           (Inl ex, w1) \<Rightarrow>
             if ex = JSONDecodeError then (Inl (UnboundLocalError ''raw''), w1)
             else (Inr degraded,
                   log_line ''ERROR'' [S ''ParserModule forward error: '', X ex] ''parser'' w1)
         | (Inr raw, w1) \<Rightarrow>
             (case raw of
                Some (c # cs) \<Rightarrow>
                  (case json_loads e (clean_json e (c # cs)) of
                     None \<Rightarrow>
                       (Inr degraded,
                        log_line ''ERROR''
                          [S ''JSON parsing error in ParserModule: '', X JSONDecodeError,
                           S ''. Raw response: '', S (take 200 (c # cs))] ''parser'' w1)
                   | Some result \<Rightarrow>
                       (case parser_decorate result (line_count e code) of
                          Inl ex \<Rightarrow>
                            (Inr degraded,
                             log_line ''ERROR'' [S ''ParserModule forward error: '', X ex]
                               ''parser'' w1)
                        | Inr (result', np, ne) \<Rightarrow>
                            (Inr result',
                             log_line ''INFO''
                               [S ''Successfully parsed VB6 code: '', N np, S '' procedures, '',
                                N ne, S '' events''] ''parser'' w1)))
              | _ \<Rightarrow>
                  (Inr degraded,
                   log_line ''ERROR'' [S ''Empty response from AI''] ''parser'' w1)))"

definition module_type_of :: "string \<Rightarrow> string" where
  "module_type_of file_name =
     (let l = py_lower file_name
      in if endswith l ''.frm'' then ''Form''
         else if endswith l ''.bas'' then ''Module''
         else if endswith l ''.cls'' then ''Class''
         else ''Unknown'')"

text \<open>The statements of \<^verbatim>\<open>ParserAgent.run\<close> between the call of the module and the return.\<close>

definition agent_decorate :: "json \<Rightarrow> string \<Rightarrow> pyexn + (json \<times> int \<times> int)" where
  "agent_decorate result file_name =
     (case py_get result ''metadata'' (JDict []) of
        Inl ex \<Rightarrow> Inl ex
      | Inr md \<Rightarrow>
          (case py_setitem md ''file_name'' (JStr file_name) of
             Inl ex \<Rightarrow> Inl ex
           | Inr md1 \<Rightarrow>
               (case py_setitem md1 ''module_type'' (JStr (module_type_of file_name)) of
                  Inl ex \<Rightarrow> Inl ex
                | Inr md2 \<Rightarrow>
                    (case py_setitem result ''metadata'' md2 of
                       Inl ex \<Rightarrow> Inl ex
                     | Inr result' \<Rightarrow>
                         (case len_of_get result' ''procedures'' of
                            Inl ex \<Rightarrow> Inl ex
                          | Inr np \<Rightarrow>
                              (case len_of_get result' ''events'' of
                                 Inl ex \<Rightarrow> Inl ex
                               | Inr ne \<Rightarrow> Inr (result', np, ne)))))))"

text \<open>The content handed to the module: the file's text, cut at \<open>MAX_CODE_LENGTH\<close>.\<close>

definition truncate_code :: "env \<Rightarrow> string \<Rightarrow> string" where
  "truncate_code e code =
     (if int (length code) > MAX_CODE_LENGTH e then py_take (MAX_CODE_LENGTH e) code else code)"

text \<open>The \<^verbatim>\<open>try\<close> body of \<^verbatim>\<open>ParserAgent.run\<close>.\<close>

definition ParserAgent_try :: "env \<Rightarrow> FileInfo \<Rightarrow> world \<Rightarrow> (pyexn + json) \<times> world" where
  "ParserAgent_try e file_info w =
     (case read_file e (path file_info) of
        Inl ex \<Rightarrow> (Inl ex, w)
      | Inr code \<Rightarrow>
          (let w1 = (if int (length code) > MAX_CODE_LENGTH e
                     then log_line ''WARNING''
                            [S ''Truncating large file: '', S (name file_info), S '' ('',
                             N (int (length code)), S '' -> '', N (MAX_CODE_LENGTH e),
                             S '' chars)''] ''parser'' w
                     else w)
           in (case ParserModule_forward e (truncate_code e code) (name file_info) w1 of
                 (Inl ex, w2) \<Rightarrow> (Inl ex, w2)
               | (Inr result, w2) \<Rightarrow>
                   (case agent_decorate result (name file_info) of
                      Inl ex \<Rightarrow> (Inl ex, w2)
                    | Inr (result', np, ne) \<Rightarrow>
                        (Inr result',
                         set_state ParserAgent COMPLETED
                           [S ''Successfully parsed '', S (name file_info), S '': '', N np,
                            S '' procedures, '', N ne, S '' events''] w2)))))"

text \<open>\<^verbatim>\<open>ParserAgent.run\<close>: every exception of the body is turned into the empty result.\<close>

definition ParserAgent_run :: "env \<Rightarrow> FileInfo \<Rightarrow> world \<Rightarrow> (pyexn + json) \<times> world" where
  "ParserAgent_run e file_info w =
     (let w0 = set_state ParserAgent RUNNING [S ''Parsing file: '', S (name file_info)] w
      in case ParserAgent_try e file_info w0 of
           (Inr result, w1) \<Rightarrow> (Inr result, w1)
         | (Inl ex, w1) \<Rightarrow>
             (Inr (empty_result (name file_info) ''Unknown'' 0),
              set_state ParserAgent FAILED
                [S ''Parser error for '', S (name file_info), S '': '', X ex] w1))"

section \<open>ContextAnalyzerModule and ContextAnalyzerAgent\<close>

definition default_context :: json where
  "default_context =
     JDict [(''application_type'', JStr ''Service''), (''main_workflow'', JDict []),
            (''data_flow'', JList []), (''state_management'', JDict []),
            (''communication'', JDict []), (''timing_patterns'', JDict []),
            (''module_hierarchy'', JDict [])]"

definition ContextAnalyzerModule_forward ::
  "env \<Rightarrow> json list \<Rightarrow> world \<Rightarrow> (pyexn + json) \<times> world" where
  "ContextAnalyzerModule_forward e parsed_results w =
     (let w0 = log_line ''INFO'' [S ''Starting context analysis''] ''context_analyzer'' w
      in case CustomAzureOpenAI_forward e (ContextPrompt parsed_results) w0 of
           (Inl ex, w1) \<Rightarrow>
             if ex = JSONDecodeError then (Inl (UnboundLocalError ''raw''), w1)
             else (Inr default_context,
                   log_line ''ERROR'' [S ''ContextAnalyzerModule forward error: '', X ex]
                     ''context_analyzer'' w1)
         | (Inr raw, w1) \<Rightarrow>
             (case raw of
                Some (c # cs) \<Rightarrow>
                  (case json_loads e (clean_json e (c # cs)) of
                     None \<Rightarrow>
                       (Inr default_context,
                        log_line ''ERROR''
                          [S ''JSON parsing error in ContextAnalyzerModule: '', X JSONDecodeError,
                           S ''. Raw response: '', S (take 200 (c # cs))] ''context_analyzer'' w1)
                   | Some result \<Rightarrow>
                       (Inr result,
                        log_line ''INFO'' [S ''Successfully analyzed VB6 context'']
                          ''context_analyzer'' w1))
              | _ \<Rightarrow>
                  (Inr default_context,
                   log_line ''ERROR'' [S ''Empty response from AI''] ''context_analyzer'' w1)))"

definition ContextAnalyzerAgent_run ::
  "env \<Rightarrow> json list \<Rightarrow> world \<Rightarrow> (pyexn + json) \<times> world" where
  "ContextAnalyzerAgent_run e parsed_results w =
     (let w0 = set_state ContextAnalyzerAgent RUNNING [S ''Running context analysis''] w
      in case ContextAnalyzerModule_forward e parsed_results w0 of
           (Inr result, w1) \<Rightarrow>
             (Inr result,
              set_state ContextAnalyzerAgent COMPLETED
                [S ''Successfully analyzed application context''] w1)
         | (Inl ex, w1) \<Rightarrow>
             (Inr default_context,
              set_state ContextAnalyzerAgent FAILED [S ''Context analysis error: '', X ex] w1))"

section \<open>SummarizerAgent\<close>

text \<open>
  \<^verbatim>\<open>SummarizerAgent.run\<close>: the state Completed is set after the merge and before the
  dump; an exception of either is replaced by the dump of the empty summary.
\<close>

definition SummarizerAgent_run ::
  "env \<Rightarrow> json list \<Rightarrow> world \<Rightarrow> (pyexn + string) \<times> world" where
  "SummarizerAgent_run e parsed_results w =
     (let w0 = set_state SummarizerAgent RUNNING [S ''Starting summarization''] w
      in case summarize e parsed_results of
           Inl ex \<Rightarrow>
             (Inr (default_yaml e),
              set_state SummarizerAgent FAILED [S ''Summarizer error: '', X ex] w0)
         | Inr (np, ne, ng) \<Rightarrow>
             (let w1 = set_state SummarizerAgent COMPLETED
                         [S ''Created summary: '', N np, S '' procedures, '', N ne,
                          S '' events, '', N ng, S '' globals''] w0
              in (case yaml_dump e parsed_results of
                    Inr y \<Rightarrow> (Inr y, w1)
                  | Inl ex \<Rightarrow>
                      (Inr (default_yaml e),
                       set_state SummarizerAgent FAILED [S ''Summarizer error: '', X ex] w1))))"

section \<open>GeneratorModule and GeneratorAgent\<close>

text \<open>
  \<^verbatim>\<open>CodeFilesModel\<close>: six required fields of type \<^verbatim>\<open>str\<close>. Validation accepts a
  string as it is and rejects a missing field or a value that is not a string.
\<close>

record CodeFilesModel =
  MyWindowsService_csproj :: string
  Program_cs :: string
  Worker_cs :: string
  appsettings_json :: string
  appsettings_Development_json :: string
  Properties__launchSettings_json :: string

fun validate_str :: "pyval option \<Rightarrow> string option" where
  "validate_str (Some (PyStr s)) = Some s"
| "validate_str _ = None"

definition CodeFilesModel_validate :: "(string \<times> pyval) list \<Rightarrow> CodeFilesModel option" where
  "CodeFilesModel_validate kwargs =
     (case (validate_str (map_of kwargs ''MyWindowsService_csproj''),
            validate_str (map_of kwargs ''Program_cs''),
            validate_str (map_of kwargs ''Worker_cs''),
            validate_str (map_of kwargs ''appsettings_json''),
            validate_str (map_of kwargs ''appsettings_Development_json''),
            validate_str (map_of kwargs ''Properties__launchSettings_json'')) of
        (Some a, Some b, Some c, Some d, Some f, Some g) \<Rightarrow>
          Some \<lparr>MyWindowsService_csproj = a, Program_cs = b, Worker_cs = c,
                appsettings_json = d, appsettings_Development_json = f,
                Properties__launchSettings_json = g\<rparr>
      | _ \<Rightarrow> None)"


text \<open>\<^verbatim>\<open>GeneratorModule._build_complete_project\<close>; a dictionary is its list of items.\<close>

definition build_complete_project ::
  "templates \<Rightarrow> pyval \<Rightarrow> world \<Rightarrow> (pyexn + (string \<times> string) list) \<times> world" where
  "build_complete_project t worker_cs w =
     (let w0 = log_line ''INFO'' [S ''Building complete project files''] ''generator'' w;
          safe = [(''MyWindowsService_csproj'', PyStr (csproj t)),
                  (''Program_cs'', PyStr (program_cs t)),
                  (''Worker_cs'', worker_cs),
                  (''appsettings_json'', PyStr (appsettings t)),
                  (''appsettings_Development_json'', PyStr (dev_appsettings t)),
                  (''Properties__launchSettings_json'', PyStr (launch_settings t))]
      in case CodeFilesModel_validate safe of
           Some validated \<Rightarrow>
             (Inr [(''MyWindowsService.csproj'', MyWindowsService_csproj validated),
                   (''Program.cs'', Program_cs validated),
                   (''Worker.cs'', Worker_cs validated),
                   (''appsettings.json'', appsettings_json validated),
                   (''appsettings.Development.json'', appsettings_Development_json validated),
                   (''Properties/launchSettings.json'',
                      Properties__launchSettings_json validated)], w0)
         | None \<Rightarrow>
             (Inl (HTTPException 500 [S ''Generated project validation failed'']),
              log_line ''ERROR''
                [S ''Project validation error: '', X (PyException ''ValidationError'')]
                ''generator'' w0))"

text \<open>
  \<^verbatim>\<open>GeneratorModule.forward\<close>: any exception of the first attempt, the validation
  failure included, leads to the second attempt with the fallback template, whose
  exceptions leave the function. The log lines written inside the templating helpers
  are not part of the model.
\<close>

definition GeneratorModule_fallback ::
  "env \<Rightarrow> string \<Rightarrow> json \<Rightarrow> pyexn \<Rightarrow> world \<Rightarrow> (pyexn + (string \<times> string) list) \<times> world" where
  "GeneratorModule_fallback e yaml_summary context_map ex w =
     (let w1 = log_line ''ERROR'' [S ''Error parsing YAML summary: '', X ex] ''generator'' w
      in case enhanced_worker_template e yaml_summary context_map of
           Inl ex2 \<Rightarrow> (Inl ex2, w1)
         | Inr worker_cs \<Rightarrow> build_complete_project (texts e) worker_cs w1)"

definition GeneratorModule_forward ::
  "env \<Rightarrow> string \<Rightarrow> json \<Rightarrow> world \<Rightarrow> (pyexn + (string \<times> string) list) \<times> world" where
  "GeneratorModule_forward e yaml_summary context_map w =
     (let w0 = log_line ''INFO'' [S ''Starting code generation''] ''generator'' w
      in case comprehensive_worker e yaml_summary context_map of
           Inl ex \<Rightarrow> GeneratorModule_fallback e yaml_summary context_map ex w0
         | Inr worker_cs \<Rightarrow>
             (case build_complete_project (texts e) worker_cs w0 of
                (Inr result, w1) \<Rightarrow>
                  (Inr result, log_line ''INFO'' [S ''Code generation completed''] ''generator'' w1)
              | (Inl ex, w1) \<Rightarrow> GeneratorModule_fallback e yaml_summary context_map ex w1))"

definition GeneratorAgent_run ::
  "env \<Rightarrow> string \<Rightarrow> json \<Rightarrow> world \<Rightarrow> (pyexn + (string \<times> string) list) \<times> world" where
  "GeneratorAgent_run e yaml_summary context_map w =
     (let w0 = set_state GeneratorAgent RUNNING [S ''Running code generation''] w
      in case GeneratorModule_forward e yaml_summary context_map w0 of
           (Inr result, w1) \<Rightarrow>
             (Inr result,
              set_state GeneratorAgent COMPLETED [S ''Successfully generated C# project files''] w1)
         | (Inl ex, w1) \<Rightarrow>
             (Inl (HTTPException 500 [S ''Code generation failed: '', X ex]),
              set_state GeneratorAgent FAILED [S ''Generation error: '', X ex] w1))"

section \<open>FileBuilderAgent\<close>

text \<open>\<^verbatim>\<open>path.unlink()\<close> guarded by \<^verbatim>\<open>path.exists()\<close>, on the artifact of an identifier.\<close>

definition unlink_if_exists :: "string \<Rightarrow> world \<Rightarrow> world" where
  "unlink_if_exists cid w =
     (case OUTPUT_DIR w cid of
        None \<Rightarrow> w
      | Some _ \<Rightarrow> w\<lparr>OUTPUT_DIR := (OUTPUT_DIR w)(cid := None)\<rparr>)"

text \<open>The \<^verbatim>\<open>try\<close> body of \<^verbatim>\<open>FileBuilderAgent.run\<close>.\<close>

definition FileBuilderAgent_try ::
  "env \<Rightarrow> string \<Rightarrow> (string \<times> string) list \<Rightarrow> world \<Rightarrow> (pyexn + bytes \<times> string) \<times> world" where
  "FileBuilderAgent_try e conversion_id code_files w =
     (case package e code_files of
        StagingFails ex \<Rightarrow> (Inl ex, w)
      | ZipFails ex partial \<Rightarrow>
          (Inl ex, w\<lparr>OUTPUT_DIR := (OUTPUT_DIR w)(conversion_id \<mapsto> partial)\<rparr>)
      | ZipWritten content \<Rightarrow>
          (let w1 = w\<lparr>OUTPUT_DIR := (OUTPUT_DIR w)(conversion_id \<mapsto> content)\<rparr>
           in if (case OUTPUT_DIR w1 conversion_id of None \<Rightarrow> True | Some b \<Rightarrow> length b = 0)
              then (Inl (HTTPException 500 [S ''Generated ZIP file is empty or missing'']),
                    set_state FileBuilderAgent FAILED
                      [S ''Generated ZIP file is empty or missing''] w1)
              else
                (let w2 = set_state FileBuilderAgent COMPLETED
                            [S ''Successfully built project ZIP with '',
                             N (int (length code_files)), S '' files''] w1
                 in (case read_back e of
                       Some ex \<Rightarrow> (Inl ex, w2)
                     | None \<Rightarrow> (Inr (content, conversion_id), w2)))))"

definition FileBuilderAgent_run ::
  "env \<Rightarrow> (string \<times> string) list \<Rightarrow> world \<Rightarrow> (pyexn + bytes \<times> string) \<times> world" where
  "FileBuilderAgent_run e code_files w =
     (let w0 = set_state FileBuilderAgent RUNNING [S ''Starting file building''] w;
          conversion_id = uuid4 e
      in case FileBuilderAgent_try e conversion_id code_files w0 of
           (Inr r, w1) \<Rightarrow> (Inr r, w1)
         | (Inl ex, w1) \<Rightarrow>
             let w2 = set_state FileBuilderAgent FAILED [S ''File builder error: '', X ex] w1
             in (Inl (HTTPException 500 [S ''Project building failed: '', X ex]),
                 unlink_if_exists conversion_id w2))"

section \<open>The orchestrator MCP\<close>

text \<open>
  \<^verbatim>\<open>asyncio.gather(*[self.parser.run(f) for f in files_to_process])\<close>: the results come
  in the order of the files. The model runs the invocations one after another in that
  order; the source interleaves their events, which changes neither the results nor
  which events are emitted.
\<close>

fun parse_all :: "env \<Rightarrow> FileInfo list \<Rightarrow> world \<Rightarrow> (pyexn + json list) \<times> world" where
  "parse_all e [] w = (Inr [], w)"
| "parse_all e (f # fs) w =
     (case ParserAgent_run e f w of
        (Inl ex, w1) \<Rightarrow> (Inl ex, w1)
      | (Inr r, w1) \<Rightarrow>
          (case parse_all e fs w1 of
             (Inl ex, w2) \<Rightarrow> (Inl ex, w2)
           | (Inr rs, w2) \<Rightarrow> (Inr (r # rs), w2)))"

text \<open>
  The statements of the \<^verbatim>\<open>try\<close> body of \<^verbatim>\<open>MCP.run\<close> from the
  \<^verbatim>\<open>asyncio.gather\<close> on, for the files to process.
\<close>

definition MCP_run_stages ::
  "env \<Rightarrow> FileInfo list \<Rightarrow> world \<Rightarrow> (pyexn + bytes \<times> string) \<times> world" where
  "MCP_run_stages e files_to_process w =
     (case parse_all e files_to_process w of
        (Inl ex, w5) \<Rightarrow> (Inl ex, w5)
      | (Inr parsed_results, w5) \<Rightarrow>
         (let w6 = set_state ParserAgent COMPLETED [] w5;
              w7 = set_state ContextAnalyzerAgent RUNNING [] w6
          in (case ContextAnalyzerAgent_run e parsed_results w7 of
                (Inl ex, w8) \<Rightarrow> (Inl ex, w8)
              | (Inr context_map, w8) \<Rightarrow>
                 (let w9 = set_state ContextAnalyzerAgent COMPLETED [] w8;
                      w10 = set_state SummarizerAgent RUNNING [] w9
                  in (case SummarizerAgent_run e parsed_results w10 of
                        (Inl ex, w11) \<Rightarrow> (Inl ex, w11)
                      | (Inr yaml_summary, w11) \<Rightarrow>
                         (let w12 = set_state SummarizerAgent COMPLETED [] w11;
                              w13 = set_state GeneratorAgent RUNNING [] w12
                          in (case GeneratorAgent_run e yaml_summary context_map w13 of
                                (Inl ex, w14) \<Rightarrow> (Inl ex, w14)
                              | (Inr code_files, w14) \<Rightarrow>
                                 (let w15 = set_state GeneratorAgent COMPLETED [] w14;
                                      w16 = set_state FileBuilderAgent RUNNING [] w15
                                  in (case FileBuilderAgent_run e code_files w16 of
                                        (Inl ex, w17) \<Rightarrow> (Inl ex, w17)
                                      | (Inr r, w17) \<Rightarrow>
                                         (let w18 = set_state FileBuilderAgent COMPLETED [] w17
                                          in (Inr r,
                                              set_pipeline_state COMPLETED
                                                [S ''Conversion pipeline completed'']
                                                w18)))))))))))"

text \<open>
  The statements after ingestion, from
  \<^verbatim>\<open>set_pipeline_state(RUNNING, "Processing ...")\<close> on: the cap on the files, its
  warning, and the stages.
\<close>

definition MCP_run_files ::
  "env \<Rightarrow> FileInfo list \<Rightarrow> world \<Rightarrow> (pyexn + bytes \<times> string) \<times> world" where
  "MCP_run_files e files w =
     (let w1 = set_pipeline_state RUNNING
                 [S ''Processing '', N (int (length files)), S '' VB6 files''] w;
          w2 = set_state IngestorAgent COMPLETED [] w1;
          w3 = set_state ParserAgent RUNNING [] w2;
          files_to_process = py_take (MAX_FILES e) files;
          w4 = (if int (length files) > MAX_FILES e
                then log_line ''WARNING''
                       [S ''Processing only first '', N (MAX_FILES e), S '' files out of '',
                        N (int (length files)), S '' total''] ''pipeline'' w3
                else w3)
      in MCP_run_stages e files_to_process w4)"

text \<open>The \<^verbatim>\<open>try\<close> body of \<^verbatim>\<open>MCP.run\<close>.\<close>

definition MCP_run_try ::
  "env \<Rightarrow> UploadFile option \<Rightarrow> string option \<Rightarrow> world \<Rightarrow> (pyexn + bytes \<times> string) \<times> world" where
  "MCP_run_try e zip_file github_link w =
     (let w1 = fold (\<lambda>a w'. if a \<noteq> IngestorAgent then set_state a IDLE [] w' else w') agents w
      in case IngestorAgent_run e zip_file github_link (temp_dir e) w1 of
           (Inl ex, w2) \<Rightarrow> (Inl ex, w2)
         | (Inr files, w2) \<Rightarrow> MCP_run_files e files w2)"

text \<open>
  \<^verbatim>\<open>MCP.run\<close>: on any exception of the body, the pipeline-level Failed event, then
  every agent set to Failed, then the exception re-raised.
\<close>

definition MCP_run ::
  "env \<Rightarrow> UploadFile option \<Rightarrow> string option \<Rightarrow> world \<Rightarrow> (pyexn + bytes \<times> string) \<times> world" where
  "MCP_run e zip_file github_link w =
     (let w0 = set_pipeline_state RUNNING [S ''Starting VB6 to .NET conversion pipeline''] w
      in case MCP_run_try e zip_file github_link w0 of
           (Inr r, w1) \<Rightarrow> (Inr r, w1)
         | (Inl ex, w1) \<Rightarrow>
             let w2 = set_pipeline_state FAILED [S ''Conversion pipeline failed: '', X ex] w1
             in (Inl ex, fold (\<lambda>a w'. set_state a FAILED [] w') agents w2))"

section \<open>The endpoints\<close>

record ConvertResponse =
  status :: string
  conversion_id :: string
  download_url :: string

text \<open>
  \<^verbatim>\<open>convert_vb6_to_dotnet\<close>. The end-to-end timeout is a matter of real time and is
  not modelled; the duration is left out of the messages and of the response.
\<close>

definition convert_vb6_to_dotnet ::
  "env \<Rightarrow> UploadFile option \<Rightarrow> string option \<Rightarrow> world \<Rightarrow> (pyexn + ConvertResponse) \<times> world" where
  "convert_vb6_to_dotnet e zip_file github_link w =
     (if zip_file = None \<and> (github_link = None \<or> github_link = Some [])
      then (Inl (HTTPException 400
                  [S ''Please provide either a ZIP file or GitHub repository link'']), w)
      else
        let w0 = log_line ''INFO'' [S ''Starting VB6 to .NET conversion''] ''pipeline'' w
        in case MCP_run e zip_file github_link w0 of
             (Inr (result_data, cid), w1) \<Rightarrow>
               let w2 = w1\<lparr>OUTPUT_DIR := (OUTPUT_DIR w1)(cid \<mapsto> result_data)\<rparr>;
                   w3 = log_line ''INFO'' [S ''Conversion completed successfully''] ''pipeline'' w2
               in (Inr \<lparr>status = ''success'', conversion_id = cid,
                        download_url = ''/download/'' @ cid\<rparr>, w3)
           | (Inl ex, w1) \<Rightarrow>
               (case ex of
                  HTTPException code detail \<Rightarrow> (Inl ex, w1)
                | _ \<Rightarrow>
                    (Inl (HTTPException 500
                            [S ''Internal server error during conversion: '', X ex]),
                     log_line ''ERROR'' [S ''Conversion failed: '', X ex] ''pipeline'' w1)))"

text \<open>The response object: it names the file to send and the download file name.\<close>

datatype response = FileResponse string string

text \<open>
  The class \<^verbatim>\<open>MCP\<close> defines no attribute \<open>logger\<close>, so \<^verbatim>\<open>mcp.logger\<close> in the
  \<^verbatim>\<open>finally\<close> clause of the download endpoint raises \<^verbatim>\<open>AttributeError\<close>.
\<close>

definition MCP_has_logger :: bool where
  "MCP_has_logger = False"

text \<open>
  \<^verbatim>\<open>download_converted_file\<close>, the same in both source files. The first argument says
  whether \<^verbatim>\<open>mcp.logger\<close> resolves. In the \<^verbatim>\<open>finally\<close> clause the file is unlinked
  first; then the log call runs under \<^verbatim>\<open>try\<close>, and when the attribute is missing the
  handler's own log call raises again, which replaces the pending return. Where such a
  logger would write is not known, so the handler is left as it is.
\<close>

definition download_converted_file ::
  "bool \<Rightarrow> string \<Rightarrow> world \<Rightarrow> (pyexn + response) \<times> world" where
  "download_converted_file has_logger cid w =
     (case OUTPUT_DIR w cid of
        None \<Rightarrow> (Inl (HTTPException 404 [S ''File not found or expired'']), w)
      | Some content \<Rightarrow>
          if length content = 0
          then (Inl (HTTPException 500 [S ''File is empty'']),
                w\<lparr>OUTPUT_DIR := (OUTPUT_DIR w)(cid := None)\<rparr>)
          else
            let w1 = w\<lparr>OUTPUT_DIR := (OUTPUT_DIR w)(cid := None)\<rparr>
            in if has_logger
               then (Inr (FileResponse cid ''MyWindowsService.zip''), w1)
               else (Inl (AttributeError ''logger''), w1))"

text \<open>The results of retrieving the same identifier \<open>n\<close> times in a row.\<close>

fun downloads :: "bool \<Rightarrow> string \<Rightarrow> nat \<Rightarrow> world \<Rightarrow> (pyexn + response) list \<times> world" where
  "downloads has_logger cid 0 w = ([], w)"
| "downloads has_logger cid (Suc n) w =
     (case download_converted_file has_logger cid w of
        (r, w1) \<Rightarrow> (case downloads has_logger cid n w1 of (rs, w2) \<Rightarrow> (r # rs, w2)))"

definition is_not_found :: "pyexn + response \<Rightarrow> bool" where
  "is_not_found r = (r = Inl (HTTPException 404 [S ''File not found or expired'']))"

definition is_content :: "pyexn + response \<Rightarrow> bool" where
  "is_content r = (case r of Inr _ \<Rightarrow> True | Inl _ \<Rightarrow> False)"

section \<open>Invariant of the handler\<close>

text \<open>
  What every reachable handler state satisfies: the progress lies between 0 and 100,
  \<open>total_stages\<close> is the constant 6, and the progress values of the queued events are
  non-decreasing and bounded by the current progress.
\<close>

definition handler_inv :: "SSELogHandler \<Rightarrow> bool" where
  "handler_inv h = (0 \<le> h_progress h \<and> h_progress h \<le> 100 \<and> total_stages h = 6
     \<and> sorted (map progress (queue h))
     \<and> list_all (\<lambda>ev. 0 \<le> progress ev \<and> progress ev \<le> h_progress h) (queue h))"

section \<open>Notions used to state the properties\<close>

text \<open>
  The outcome of the language-model wrapper for a prompt. It does not depend on the
  state the wrapper is called in, so it is read off a call in the initial state.
\<close>

definition transform_outcome :: "env \<Rightarrow> prompt \<Rightarrow> pyexn + string option" where
  "transform_outcome e p = fst (CustomAzureOpenAI_forward e p world_init)"

text \<open>
  The three failures of the text transform for one file: the wrapper raises, it returns
  an empty response (\<open>None\<close> or the empty string), or it returns text that fails
  decoding after the clean-up.
\<close>

definition transform_degrades :: "env \<Rightarrow> string \<Rightarrow> string \<Rightarrow> bool" where
  "transform_degrades e file_name code =
     (case transform_outcome e (ParserPrompt file_name (take 8000 code)) of
        Inl ex \<Rightarrow> True
      | Inr None \<Rightarrow> True
      | Inr (Some raw) \<Rightarrow> raw = [] \<or> json_loads e (clean_json e raw) = None)"

text \<open>
  Following the words of the specification: a resolved path stays within a directory
  when it is the directory itself or lies below it.
\<close>

definition within_dir :: "string \<Rightarrow> string \<Rightarrow> bool" where
  "within_dir d p = (p = d \<or> startswith p (d @ ''/''))"

text \<open>The effect of the handler of \<^verbatim>\<open>MCP.run\<close> on the state the failing body left.\<close>

definition mark_failed :: "pyexn \<Rightarrow> world \<Rightarrow> world" where
  "mark_failed ex w =
     fold (\<lambda>a w'. set_state a FAILED [] w') agents
       (set_pipeline_state FAILED [S ''Conversion pipeline failed: '', X ex] w)"

section \<open>A concrete environment\<close>

text \<open>
  An environment with the default configuration in which every external call succeeds:
  the working directory holds one form file, the model answers with an object that has
  an empty metadata entry, and packaging writes four bytes. The concrete instances of
  the theorems below are stated on it and on variations of it.
\<close>

definition demo_env :: env where
  "demo_env =
     \<lparr>MAX_FILE_SIZE_MB = 50, MAX_CODE_LENGTH = 100000, MAX_FILES = 50,
      cwd = ''/srv/app'', temp_dir = ''/tmp/tmpab12cd3e'',
      walk = [(''/tmp/tmpab12cd3e'', [''upload.zip'', ''Form1.frm''])],
      re_match_repo = (\<lambda>link. True), clone_from = (\<lambda>link. None),
      read_file = (\<lambda>p. Inr ''Sub Main''), line_count = (\<lambda>code. 1),
      chat = (\<lambda>p n. Inr (Some ''{}'')), clean_json = (\<lambda>raw. raw),
      json_loads = (\<lambda>txt. Some (JDict [(''metadata'', JDict [])])),
      summarize = (\<lambda>rs. Inr (0, 0, 0)), yaml_dump = (\<lambda>rs. Inr ''file_count: 1''),
      default_yaml = ''file_count: 0'',
      comprehensive_worker = (\<lambda>y c. Inr (PyStr ''class Worker'')),
      enhanced_worker_template = (\<lambda>y c. Inr (PyStr ''class Worker'')),
      texts = \<lparr>csproj = ''<Project/>'', program_cs = ''var host'', appsettings = ''{}'',
               dev_appsettings = ''{}'', launch_settings = ''{}''\<rparr>,
      uuid4 = ''0f8fad5b'', package = (\<lambda>files. ZipWritten [80, 75, 3, 4]),
      read_back = None\<rparr>"

definition demo_zip :: UploadFile where
  "demo_zip = \<lparr>upload_size = Some 2048, upload_archive = Zip [''Form1.frm'']\<rparr>"

text \<open>The number of state updates with state Completed among some events.\<close>

definition completed_updates :: "Event list \<Rightarrow> nat" where
  "completed_updates evs =
     length (filter (\<lambda>ev. event_type ev = ''state_update''
                          \<and> state ev = Some (state_value COMPLETED)) evs)"


text \<open>
  The records of six state updates with state Completed, one for each stage agent, as
  \<^verbatim>\<open>agent.set_state(AgentState.COMPLETED)\<close> logs them.
\<close>

definition six_completions :: "LogRecord list" where
  "six_completions =
     map (\<lambda>a. \<lparr>levelname = ''INFO'',
               msg = [S (agent_name a), S '' state changed to '', S (state_value COMPLETED)],
               r_event_type = Some ''state_update'', r_stage = Some (py_lower (agent_name a)),
               r_agent = Some (agent_name a), r_state = Some (state_value COMPLETED)\<rparr>)
         agents"

text \<open>
  Comparing two runs. The warning about the processing cap is the one log line written
  with level WARNING at stage pipeline. Two sequences of events are the same to an
  observer when, with that warning left out and the numbers interpolated into messages
  disregarded, they are equal; two states have the same outcome when the agents' states,
  the artifacts and the handler's progress and current agent are equal and the events
  are the same in this sense.
\<close>

definition cap_warning :: "Event \<Rightarrow> bool" where
  "cap_warning ev = (level ev = ''WARNING'' \<and> stage ev = ''pipeline'')"

fun blur_fmt :: "fmt \<Rightarrow> fmt" where
  "blur_fmt (N k) = N 0"
| "blur_fmt p = p"

definition observable :: "Event list \<Rightarrow> Event list" where
  "observable evs =
     map (\<lambda>ev. ev\<lparr>message := map blur_fmt (message ev)\<rparr>)
         (filter (\<lambda>ev. \<not> cap_warning ev) evs)"

definition same_outcome :: "world \<Rightarrow> world \<Rightarrow> bool" where
  "same_outcome w w' =
     (agent_state w = agent_state w' \<and> OUTPUT_DIR w = OUTPUT_DIR w'
      \<and> h_progress (sse_handler w) = h_progress (sse_handler w')
      \<and> h_current_agent (sse_handler w) = h_current_agent (sse_handler w')
      \<and> total_stages (sse_handler w) = total_stages (sse_handler w')
      \<and> observable (queue (sse_handler w)) = observable (queue (sse_handler w')))"

text \<open>
  The files whose parsing was started, read off the events: the names in the messages
  \<^verbatim>\<open>Parsing file: <name>\<close> with which \<^verbatim>\<open>ParserAgent.run\<close> sets its state Running.
\<close>

definition parse_start :: "message \<Rightarrow> string option \<Rightarrow> string option \<Rightarrow> string list" where
  "parse_start m ag st =
     (case m of
        [S p, S n] \<Rightarrow>
          if p = ''Parsing file: '' \<and> ag = Some ''ParserAgent''
             \<and> st = Some (state_value RUNNING)
          then [n] else []
      | _ \<Rightarrow> [])"

definition parse_started :: "Event \<Rightarrow> string list" where
  "parse_started ev = parse_start (message ev) (agent ev) (state ev)"

definition parsed_files :: "Event list \<Rightarrow> string list" where
  "parsed_files evs = concat (map parse_started evs)"

text \<open>Two results of a stage agree: equal values and states with the same outcome.\<close>

definition same_result :: "'a \<times> world \<Rightarrow> 'a \<times> world \<Rightarrow> bool" where
  "same_result p q = (fst p = fst q \<and> same_outcome (snd p) (snd q))"

text \<open>The number of cap warnings among the events a state holds.\<close>

definition cap_warnings :: "world \<Rightarrow> nat" where
  "cap_warnings w = length (filter cap_warning (queue (sse_handler w)))"

section \<open>Properties of the handler\<close>

lemma emit_progress:
  "h_progress (emit r h) =
     (if is_completed_update r \<and> total_stages h \<noteq> 0
      then min (h_progress h + 100 div total_stages h) 100 else h_progress h)"
  by (auto simp: emit_def is_completed_update_def Let_def split: option.splits)

lemma emit_total_stages [simp]: "total_stages (emit r h) = total_stages h"
  by (auto simp: emit_def Let_def split: option.splits)

lemma emit_queue:
  "queue (emit r h) = queue h \<or>
   (\<exists>ev. queue (emit r h) = queue h @ [ev] \<and> progress ev = h_progress (emit r h))"
  by (auto simp: emit_def Let_def split: option.splits)

lemma handler_inv_init: "handler_inv SSELogHandler_init"
  by (simp add: handler_inv_def SSELogHandler_init_def)

lemma handler_inv_emit:
  assumes "handler_inv h" shows "handler_inv (emit r h)"
proof -
  from assms have p: "0 \<le> h_progress h" "h_progress h \<le> 100" "total_stages h = 6"
    and s: "sorted (map progress (queue h))"
    and q: "\<forall>ev \<in> set (queue h). 0 \<le> progress ev \<and> progress ev \<le> h_progress h"
    by (simp_all add: handler_inv_def list_all_iff)
  have mono: "h_progress h \<le> h_progress (emit r h)" "h_progress (emit r h) \<le> 100"
    "0 \<le> h_progress (emit r h)"
    using p by (simp_all add: emit_progress)
  from emit_queue [of r h] show ?thesis
  proof
    assume "queue (emit r h) = queue h"
    with p s q mono show ?thesis
      by (auto simp: handler_inv_def list_all_iff emit_total_stages)
  next
    assume "\<exists>ev. queue (emit r h) = queue h @ [ev] \<and> progress ev = h_progress (emit r h)"
    then obtain ev where "queue (emit r h) = queue h @ [ev]" "progress ev = h_progress (emit r h)"
      by blast
    with p s q mono show ?thesis
      by (auto simp: handler_inv_def list_all_iff emit_total_stages sorted_append)
  qed
qed

lemma handler_inv_emit_all: "handler_inv h \<Longrightarrow> handler_inv (emit_all rs h)"
  by (induction rs arbitrary: h) (simp_all add: handler_inv_emit)

lemma emit_all_progress:
  "total_stages h = 6 \<Longrightarrow> h_progress h \<le> 100 \<Longrightarrow>
   h_progress (emit_all rs h) =
     min (h_progress h + 16 * int (length (filter is_completed_update rs))) 100"
proof (induction rs arbitrary: h)
  case Nil
  then show ?case by simp
next
  case (Cons r rs)
  have t: "total_stages (emit r h) = 6" using Cons.prems by simp
  have b: "h_progress (emit r h) \<le> 100" using Cons.prems by (simp add: emit_progress)
  show ?case
    using Cons.IH [OF t b] Cons.prems by (auto simp: emit_progress min_def)
qed

lemma six_completions_count: "length (filter is_completed_update six_completions) = 6"
  by (simp add: six_completions_def agents_def is_completed_update_def)

text \<open>
  Claim C9, as amended. For every record the handler processes, in any state it can
  reach, the progress changes only when the record is a state update with state
  Completed, and then it becomes the old value plus 16 (that is \<open>100 div 6\<close>), capped
  at 100, whatever the stage or agent; it never decreases and is never reset.
  Consequently records that include exactly six such completions take the progress
  from the value \<open>p\<close> it had before them to \<open>min (p + 96) 100\<close>: to 96 when they
  start from 0, to 100 when the handler has served an earlier run.
\<close>

theorem progress_steps_by_sixteen:
  "h_progress (emit r (emit_all before SSELogHandler_init)) =
     (if is_completed_update r then min (h_progress (emit_all before SSELogHandler_init) + 16) 100
      else h_progress (emit_all before SSELogHandler_init))
   \<and> h_progress (emit_all before SSELogHandler_init)
        \<le> h_progress (emit r (emit_all before SSELogHandler_init))
   \<and> (length (filter is_completed_update run) = 6 \<longrightarrow>
        h_progress (emit_all run (emit_all before SSELogHandler_init)) =
          min (h_progress (emit_all before SSELogHandler_init) + 96) 100)"
proof -
  let ?h = "emit_all before SSELogHandler_init"
  have inv: "handler_inv ?h"
    by (simp add: handler_inv_emit_all handler_inv_init)
  then have t: "total_stages ?h = 6" and b: "h_progress ?h \<le> 100"
    by (simp_all add: handler_inv_def)
  have one: "h_progress (emit r ?h) =
     (if is_completed_update r then min (h_progress ?h + 16) 100 else h_progress ?h)"
    using t by (simp add: emit_progress)
  have two: "h_progress ?h \<le> h_progress (emit r ?h)"
    using b by (simp add: one)
  have three: "h_progress (emit_all run ?h) = min (h_progress ?h + 96) 100"
    if "length (filter is_completed_update run) = 6"
    using emit_all_progress [OF t b, of run] that by simp
  from one two three show ?thesis by blast
qed

theorem progress_steps_by_sixteen_witness:
  "length (filter is_completed_update six_completions) = 6
   \<and> h_progress (emit_all six_completions (emit_all [] SSELogHandler_init)) = 96
   \<and> h_progress (emit_all six_completions (emit_all six_completions SSELogHandler_init)) = 100"
proof -
  have p0: "h_progress (emit_all [] SSELogHandler_init) = 0"
    by (simp add: SSELogHandler_init_def)
  have a: "h_progress (emit_all six_completions (emit_all [] SSELogHandler_init)) = 96"
    using progress_steps_by_sixteen [of "hd six_completions" "[]" six_completions] six_completions_count p0
    by simp
  then have p1: "h_progress (emit_all six_completions SSELogHandler_init) = 96" by simp
  have b: "h_progress (emit_all six_completions (emit_all six_completions SSELogHandler_init)) = 100"
    using progress_steps_by_sixteen [of "hd six_completions" six_completions six_completions]
      six_completions_count p1
    by simp
  from a b six_completions_count show ?thesis by simp
qed

section \<open>How logging changes the state\<close>

lemma OUTPUT_DIR_logger_log [simp]: "OUTPUT_DIR (logger_log l m a b c d w) = OUTPUT_DIR w"
  by (simp add: logger_log_def)

lemma OUTPUT_DIR_set_state [simp]: "OUTPUT_DIR (set_state a s m w) = OUTPUT_DIR w"
  by (simp add: set_state_def)

lemma agent_state_logger_log [simp]: "agent_state (logger_log l m a b c d w) = agent_state w"
  by (simp add: logger_log_def)

lemma agent_state_log_line [simp]: "agent_state (log_line l m s w) = agent_state w"
  by (simp add: log_line_def)

lemma agent_state_set_pipeline_state [simp]:
  "agent_state (set_pipeline_state s m w) = agent_state w"
  by (simp add: set_pipeline_state_def)

lemma agent_state_set_state [simp]:
  "agent_state (set_state a s m w) = (agent_state w)(a := s)"
  by (simp add: set_state_def)

lemma OUTPUT_DIR_log_line [simp]: "OUTPUT_DIR (log_line l m s w) = OUTPUT_DIR w"
  by (simp add: log_line_def)

lemma OUTPUT_DIR_set_pipeline_state [simp]:
  "OUTPUT_DIR (set_pipeline_state s m w) = OUTPUT_DIR w"
  by (simp add: set_pipeline_state_def)

lemma total_stages_logger_log [simp]:
  "total_stages (sse_handler (logger_log l m a b c d w)) = total_stages (sse_handler w)"
  by (simp add: logger_log_def)

lemma total_stages_log_line [simp]:
  "total_stages (sse_handler (log_line l m s w)) = total_stages (sse_handler w)"
  by (simp add: log_line_def)

lemma total_stages_set_state [simp]:
  "total_stages (sse_handler (set_state a s m w)) = total_stages (sse_handler w)"
  by (simp add: set_state_def)

lemma total_stages_set_pipeline_state [simp]:
  "total_stages (sse_handler (set_pipeline_state s m w)) = total_stages (sse_handler w)"
  by (simp add: set_pipeline_state_def)

lemma progress_log_line [simp]:
  "h_progress (sse_handler (log_line l m s w)) = h_progress (sse_handler w)"
  by (simp add: log_line_def logger_log_def emit_progress is_completed_update_def)

lemma progress_set_state:
  "total_stages (sse_handler w) = 6 \<Longrightarrow>
   h_progress (sse_handler (set_state a s m w)) =
     (if s = COMPLETED then min (h_progress (sse_handler w) + 16) 100
      else h_progress (sse_handler w))"
  by (cases s) (simp_all add: set_state_def logger_log_def emit_progress is_completed_update_def)

lemma progress_set_pipeline_state:
  "total_stages (sse_handler w) = 6 \<Longrightarrow>
   h_progress (sse_handler (set_pipeline_state s m w)) =
     (if s = COMPLETED then min (h_progress (sse_handler w) + 16) 100
      else h_progress (sse_handler w))"
  by (cases s) (simp_all add: set_pipeline_state_def logger_log_def emit_progress is_completed_update_def)

lemma total_stages_world_init [simp]: "total_stages (sse_handler world_init) = 6"
  by (simp add: world_init_def SSELogHandler_init_def)

lemma completed_updates_emit:
  "total_stages h = 6 \<Longrightarrow>
   completed_updates (queue (emit r h)) =
     (if is_completed_update r then Suc (completed_updates (queue h))
      else completed_updates (queue h))"
  by (auto simp: emit_def Let_def completed_updates_def is_completed_update_def
           split: option.splits)

lemma completed_updates_log_line [simp]:
  "total_stages (sse_handler w) = 6 \<Longrightarrow>
   completed_updates (queue (sse_handler (log_line l m s w))) =
     completed_updates (queue (sse_handler w))"
  by (simp add: log_line_def logger_log_def completed_updates_emit is_completed_update_def)

lemma completed_updates_set_state:
  "total_stages (sse_handler w) = 6 \<Longrightarrow>
   completed_updates (queue (sse_handler (set_state a s m w))) =
     (if s = COMPLETED then Suc (completed_updates (queue (sse_handler w)))
      else completed_updates (queue (sse_handler w)))"
  by (cases s)
     (simp_all add: set_state_def logger_log_def completed_updates_emit is_completed_update_def)

lemma completed_updates_set_pipeline_state:
  "total_stages (sse_handler w) = 6 \<Longrightarrow>
   completed_updates (queue (sse_handler (set_pipeline_state s m w))) =
     (if s = COMPLETED then Suc (completed_updates (queue (sse_handler w)))
      else completed_updates (queue (sse_handler w)))"
  by (cases s)
     (simp_all add: set_pipeline_state_def logger_log_def completed_updates_emit
        is_completed_update_def)

lemma completed_updates_world_init [simp]:
  "completed_updates (queue (sse_handler world_init)) = 0"
  by (simp add: completed_updates_def world_init_def SSELogHandler_init_def)

lemma progress_world_init [simp]: "h_progress (sse_handler world_init) = 0"
  by (simp add: world_init_def SSELogHandler_init_def)

section \<open>Retrieval of the artifact\<close>

lemma download_removes: "OUTPUT_DIR (snd (download_converted_file b cid w)) cid = None"
  by (simp add: download_converted_file_def Let_def split: option.splits)

lemma download_missing:
  "OUTPUT_DIR w cid = None \<Longrightarrow>
   download_converted_file b cid w = (Inl (HTTPException 404 [S ''File not found or expired'']), w)"
  by (simp add: download_converted_file_def)

lemma downloads_missing:
  "OUTPUT_DIR w cid = None \<Longrightarrow> list_all is_not_found (fst (downloads b cid n w))"
proof (induction n)
  case 0
  show ?case by simp
next
  case (Suc n)
  then show ?case
    by (simp add: download_missing is_not_found_def case_prod_beta)
qed

text \<open>
  Claim C2. For every conversion identifier the download endpoint yields a response
  with the artifact at most once. Whatever the first retrieval returns, the artifact
  file is gone afterwards; every later retrieval of the same identifier reports
  not-found, and so does a retrieval of an identifier that has no artifact. This holds
  whether or not \<^verbatim>\<open>mcp.logger\<close> resolves.
\<close>

theorem download_at_most_once:
  "fst (downloads b cid (Suc n) w) = r # rs \<Longrightarrow>
     list_all is_not_found rs
     \<and> length (filter is_content (r # rs)) \<le> 1
     \<and> OUTPUT_DIR (snd (download_converted_file b cid w)) cid = None
     \<and> (OUTPUT_DIR w cid = None \<longrightarrow> is_not_found r)"
proof -
  assume a: "fst (downloads b cid (Suc n) w) = r # rs"
  let ?w1 = "snd (download_converted_file b cid w)"
  from a have r: "r = fst (download_converted_file b cid w)"
    and rs: "rs = fst (downloads b cid n ?w1)"
    by (simp_all add: case_prod_beta)
  have gone: "OUTPUT_DIR ?w1 cid = None" by (rule download_removes)
  have nf: "list_all is_not_found rs"
    unfolding rs using gone by (rule downloads_missing)
  have "\<not> is_content x" if "is_not_found x" for x
    using that by (simp add: is_not_found_def is_content_def)
  with nf have "filter is_content rs = []"
    by (auto simp: list_all_iff filter_empty_conv)
  then have "length (filter is_content (r # rs)) \<le> 1" by simp
  moreover have "OUTPUT_DIR w cid = None \<Longrightarrow> is_not_found r"
    unfolding r by (simp add: download_missing is_not_found_def)
  ultimately show ?thesis using nf gone by blast
qed

theorem download_at_most_once_witness:
  "fst (downloads MCP_has_logger ''id1'' (Suc 2) (world_init\<lparr>OUTPUT_DIR := [''id1'' \<mapsto> [80, 75]]\<rparr>))
     = [Inl (AttributeError ''logger''), Inl (HTTPException 404 [S ''File not found or expired'']),
        Inl (HTTPException 404 [S ''File not found or expired''])]
   \<and> list_all is_not_found [Inl (HTTPException 404 [S ''File not found or expired'']),
        Inl (HTTPException 404 [S ''File not found or expired''])]"
  using download_at_most_once [of MCP_has_logger "''id1''" 2 "world_init\<lparr>OUTPUT_DIR := [''id1'' \<mapsto> [80, 75]]\<rparr>"
     "Inl (AttributeError ''logger'')" "[Inl (HTTPException 404 [S ''File not found or expired'']),
        Inl (HTTPException 404 [S ''File not found or expired''])]"]
  by (simp add: download_converted_file_def MCP_has_logger_def world_init_def numeral_2_eq_2)

section \<open>The packaging stage\<close>

lemma OUTPUT_DIR_unlink [simp]: "OUTPUT_DIR (unlink_if_exists cid w) cid = None"
  by (simp add: unlink_if_exists_def split: option.splits)

text \<open>
  Claim C10. If the packaging stage raises after it has fixed its output path, the
  artifact file, however much of it was written, is deleted before the error leaves the
  stage: afterwards no artifact exists under the run's conversion identifier, and a
  retrieval of that identifier reports not-found.
\<close>

theorem failed_packaging_leaves_no_artifact:
  "FileBuilderAgent_run e code_files w = (Inl ex, w') \<Longrightarrow>
     OUTPUT_DIR w' (uuid4 e) = None
     \<and> is_not_found (fst (download_converted_file b (uuid4 e) w'))"
proof -
  assume run: "FileBuilderAgent_run e code_files w = (Inl ex, w')"
  have "OUTPUT_DIR w' (uuid4 e) = None"
    using run
    by (auto simp: FileBuilderAgent_run_def Let_def split: prod.splits sum.splits)
  then show ?thesis
    by (simp add: download_converted_file_def is_not_found_def)
qed

theorem failed_packaging_leaves_no_artifact_witness:
  "FileBuilderAgent_run (demo_env\<lparr>package := (\<lambda>files. ZipFails (OSError ''No space left on device'') [80, 75])\<rparr>)
       [(''Program.cs'', ''var host'')] world_init
     = (Inl (HTTPException 500 [S ''Project building failed: '', X (OSError ''No space left on device'')]),
        snd (FileBuilderAgent_run (demo_env\<lparr>package := (\<lambda>files. ZipFails (OSError ''No space left on device'') [80, 75])\<rparr>)
       [(''Program.cs'', ''var host'')] world_init))
   \<and> OUTPUT_DIR (snd (FileBuilderAgent_run (demo_env\<lparr>package := (\<lambda>files. ZipFails (OSError ''No space left on device'') [80, 75])\<rparr>)
       [(''Program.cs'', ''var host'')] world_init)) ''0f8fad5b'' = None"
proof -
  let ?e = "demo_env\<lparr>package := (\<lambda>files. ZipFails (OSError ''No space left on device'') [80, 75])\<rparr>"
  let ?r = "FileBuilderAgent_run ?e [(''Program.cs'', ''var host'')] world_init"
  have r: "?r = (Inl (HTTPException 500 [S ''Project building failed: '', X (OSError ''No space left on device'')]), snd ?r)"
    by (simp add: FileBuilderAgent_run_def FileBuilderAgent_try_def demo_env_def Let_def)
  have u: "uuid4 ?e = ''0f8fad5b''" by (simp add: demo_env_def)
  from failed_packaging_leaves_no_artifact [OF r, of True] u r show ?thesis by simp
qed

section \<open>The generator stage\<close>







section \<open>The per-file processing stage\<close>

lemma lm_attempts_fst: "fst (lm_attempts call k a w) = fst (lm_attempts call k a w')"
  by (induction k arbitrary: a w w') (auto simp: Let_def split: sum.splits)

lemma forward_outcome: "fst (CustomAzureOpenAI_forward e p w) = transform_outcome e p"
  unfolding transform_outcome_def CustomAzureOpenAI_forward_def by (rule lm_attempts_fst)

lemma agent_decorate_empty:
  "agent_decorate (empty_result fname mt n) fname =
     Inr (empty_result fname (module_type_of fname) n, 0, 0)"
  by (simp add: agent_decorate_def empty_result_def len_of_get_def)

lemma ParserModule_forward_degrades:
  assumes "transform_degrades e fname code"
  shows "fst (ParserModule_forward e code fname w) = Inr (empty_result fname ''Unknown'' (line_count e code))
       \<or> fst (ParserModule_forward e code fname w) = Inl (UnboundLocalError ''raw'')"
proof -
  let ?w0 = "log_line ''INFO'' [S ''Starting VB6 code parsing''] ''parser'' w"
  let ?p = "ParserPrompt fname (take 8000 code)"
  obtain r w1 where c: "CustomAzureOpenAI_forward e ?p ?w0 = (r, w1)"
    by (cases "CustomAzureOpenAI_forward e ?p ?w0")
  then have r: "transform_outcome e ?p = r"
    using forward_outcome [of e ?p ?w0] by simp
  show ?thesis
  proof (cases r)
    case (Inl ex)
    with c show ?thesis by (simp add: ParserModule_forward_def Let_def)
  next
    case (Inr raw)
    show ?thesis
    proof (cases raw)
      case None
      with c Inr show ?thesis by (simp add: ParserModule_forward_def Let_def)
    next
      case (Some s)
      with assms r Inr have "s = [] \<or> json_loads e (clean_json e s) = None"
        by (simp add: transform_degrades_def)
      with c Inr Some show ?thesis
        by (cases s) (auto simp: ParserModule_forward_def Let_def)
    qed
  qed
qed

text \<open>
  Claim C3. For every input file that can be read, if the text transform raises,
  returns an empty response, or returns text that fails decoding, the per-file stage
  returns a well-formed empty result and raises nothing: the four lists and the main
  logic are empty, and the metadata holds the file name, the module type and the line
  count. The module type is the one derived from the file name and the line count that
  of the content handed to the transform; only when the exception of the transform is
  itself a \<^verbatim>\<open>JSONDecodeError\<close> are they \<open>Unknown\<close> and 0.
\<close>

theorem parser_stage_degrades_to_empty_result:
  assumes "read_file e (path file_info) = Inr content"
    and "transform_degrades e (name file_info) (truncate_code e content)"
  shows "fst (ParserAgent_run e file_info w) =
           Inr (empty_result (name file_info) (module_type_of (name file_info))
                  (line_count e (truncate_code e content)))
       \<or> fst (ParserAgent_run e file_info w) = Inr (empty_result (name file_info) ''Unknown'' 0)"
proof -
  let ?w0 = "set_state ParserAgent RUNNING [S ''Parsing file: '', S (name file_info)] w"
  let ?w1 = "(if int (length content) > MAX_CODE_LENGTH e
                    then log_line ''WARNING''
                           [S ''Truncating large file: '', S (name file_info), S '' ('',
                            N (int (length content)), S '' -> '', N (MAX_CODE_LENGTH e),
                            S '' chars)''] ''parser'' ?w0
                    else ?w0)"
  let ?f = "ParserModule_forward e (truncate_code e content) (name file_info) ?w1"
  obtain r w2 where f: "?f = (r, w2)" by (cases ?f)
  from ParserModule_forward_degrades [OF assms(2), of ?w1] f
  consider "r = Inr (empty_result (name file_info) ''Unknown'' (line_count e (truncate_code e content)))"
    | "r = Inl (UnboundLocalError ''raw'')"
    by auto
  then show ?thesis
  proof cases
    case 1
    with f assms(1) show ?thesis
      by (simp add: ParserAgent_run_def ParserAgent_try_def Let_def agent_decorate_empty)
  next
    case 2
    with f assms(1) show ?thesis
      by (simp add: ParserAgent_run_def ParserAgent_try_def Let_def)
  qed
qed

theorem parser_stage_degrades_to_empty_result_witness:
  "read_file (demo_env\<lparr>chat := (\<lambda>p n. Inl (PyException ''timeout''))\<rparr>)
       (path \<lparr>path = ''/tmp/tmpab12cd3e/Form1.frm'', name = ''Form1.frm''\<rparr>) = Inr ''Sub Main''
   \<and> transform_degrades (demo_env\<lparr>chat := (\<lambda>p n. Inl (PyException ''timeout''))\<rparr>)
       ''Form1.frm'' ''Sub Main''
   \<and> fst (ParserAgent_run (demo_env\<lparr>chat := (\<lambda>p n. Inl (PyException ''timeout''))\<rparr>)
             \<lparr>path = ''/tmp/tmpab12cd3e/Form1.frm'', name = ''Form1.frm''\<rparr> world_init)
       = Inr (empty_result ''Form1.frm'' ''Form'' 1)"
proof -
  let ?e = "demo_env\<lparr>chat := (\<lambda>p n. Inl (PyException ''timeout''))\<rparr>"
  let ?f = "\<lparr>path = ''/tmp/tmpab12cd3e/Form1.frm'', name = ''Form1.frm''\<rparr>"
  have rd: "read_file ?e (path ?f) = Inr ''Sub Main''"
    by (simp add: demo_env_def)
  have tr: "truncate_code ?e ''Sub Main'' = ''Sub Main''"
    by (simp add: truncate_code_def demo_env_def)
  have dg: "transform_degrades ?e (name ?f) (truncate_code ?e ''Sub Main'')"
    by (simp add: tr transform_degrades_def transform_outcome_def CustomAzureOpenAI_forward_def
          demo_env_def eval_nat_numeral Let_def)
  have mt: "module_type_of ''Form1.frm'' = ''Form''"
    by (simp add: module_type_of_def py_lower_def lower_char_def endswith_def)
  have ne: "empty_result ''Form1.frm'' ''Form'' 1 \<noteq> empty_result ''Form1.frm'' ''Unknown'' 0"
    by (simp add: empty_result_def)
  have lc: "line_count ?e ''Sub Main'' = 1"
    by (simp add: demo_env_def)
  have run: "fst (ParserAgent_run ?e ?f world_init) = Inr (empty_result ''Form1.frm'' ''Form'' 1)"
    by (simp add: ParserAgent_run_def ParserAgent_try_def ParserModule_forward_def
          CustomAzureOpenAI_forward_def demo_env_def eval_nat_numeral Let_def truncate_code_def
          agent_decorate_empty mt)
  from parser_stage_degrades_to_empty_result [OF rd dg, of world_init] rd dg tr run
  show ?thesis by simp
qed

section \<open>A run in the concrete environment\<close>

lemmas stage_defs =
  MCP_run_def MCP_run_try_def MCP_run_files_def MCP_run_stages_def IngestorAgent_run_def ingest_zip_def
  ParserAgent_run_def ParserAgent_try_def ParserModule_forward_def CustomAzureOpenAI_forward_def
  ContextAnalyzerAgent_run_def ContextAnalyzerModule_forward_def SummarizerAgent_run_def
  GeneratorAgent_run_def GeneratorModule_forward_def GeneratorModule_fallback_def
  build_complete_project_def CodeFilesModel_validate_def FileBuilderAgent_run_def
  FileBuilderAgent_try_def

lemmas eval_defs =
  agents_def demo_env_def demo_zip_def Let_def eval_nat_numeral
  entry_passes_check_def abspath_def path_join_def normpath_def startswith_def endswith_def
  collect_vb6_files_def is_vb6_file_def py_lower_def lower_char_def
  py_take_def truncate_code_def parser_decorate_def agent_decorate_def len_of_get_def
  module_type_of_def

lemma demo_run_result:
  "fst (MCP_run demo_env (Some demo_zip) link world_init) = Inr ([80, 75, 3, 4], ''0f8fad5b'')"
  by (simp add: stage_defs eval_defs)

lemma demo_run_total_stages:
  "total_stages (sse_handler (snd (MCP_run demo_env (Some demo_zip) None world_init))) = 6"
  by (simp add: stage_defs eval_defs)

lemma demo_run_progress:
  "h_progress (sse_handler (snd (MCP_run demo_env (Some demo_zip) None world_init))) = 100"
  by (simp add: stage_defs eval_defs progress_set_state progress_set_pipeline_state)

lemma demo_run_completed:
  "completed_updates
     (queue (sse_handler (snd (MCP_run demo_env (Some demo_zip) None world_init)))) = 13"
  by (simp add: stage_defs eval_defs completed_updates_set_state
        completed_updates_set_pipeline_state)

text \<open>
  Claim C9 as stated fails. In the concrete environment a successful single-file run on
  a fresh handler emits thirteen Completed state updates and ends with progress 100;
  and six Completed state updates processed after that run, with no reset in between,
  end with progress 100, not 96.
\<close>

theorem six_completions_after_a_run_counterexample:
  "fst (MCP_run demo_env (Some demo_zip) None world_init) = Inr ([80, 75, 3, 4], ''0f8fad5b'')
   \<and> completed_updates
        (queue (sse_handler (snd (MCP_run demo_env (Some demo_zip) None world_init)))) = 13
   \<and> h_progress (sse_handler (snd (MCP_run demo_env (Some demo_zip) None world_init))) = 100
   \<and> length (filter is_completed_update six_completions) = 6
   \<and> h_progress (emit_all six_completions
         (sse_handler (snd (MCP_run demo_env (Some demo_zip) None world_init)))) = 100"
  using emit_all_progress [OF demo_run_total_stages, of six_completions]
  by (simp add: demo_run_result demo_run_completed demo_run_progress six_completions_count)

section \<open>The input boundary of ingestion\<close>

text \<open>
  Claim C7 as stated fails: a request that supplies both an archive and a repository
  link is not rejected. In the concrete environment it runs to the end and returns the
  success response.
\<close>

theorem both_inputs_accepted_counterexample:
  "fst (convert_vb6_to_dotnet demo_env (Some demo_zip) (Some ''https://github.com/acme/legacy'')
          world_init)
     = Inr \<lparr>status = ''success'', conversion_id = ''0f8fad5b'',
            download_url = ''/download/0f8fad5b''\<rparr>"
proof -
  let ?w0 = "log_line ''INFO'' [S ''Starting VB6 to .NET conversion''] ''pipeline'' world_init"
  have "fst (MCP_run demo_env (Some demo_zip) (Some ''https://github.com/acme/legacy'') ?w0)
          = Inr ([80, 75, 3, 4], ''0f8fad5b'')"
    by (simp add: stage_defs eval_defs)
  then show ?thesis
    by (cases "MCP_run demo_env (Some demo_zip) (Some ''https://github.com/acme/legacy'') ?w0")
       (simp add: convert_vb6_to_dotnet_def Let_def)
qed

text \<open>
  Claim C7, as amended. A request that supplies neither an archive nor a non-empty
  link fails with status 400 before any stage work begins: nothing is logged and the
  state is unchanged. A request that supplies an archive is handled the same whether or
  not a link comes with it: the ingestor, and with it the whole request, ignores the
  link.
\<close>

theorem ingestion_input_boundary:
  "convert_vb6_to_dotnet e None None w =
     (Inl (HTTPException 400 [S ''Please provide either a ZIP file or GitHub repository link'']), w)
   \<and> convert_vb6_to_dotnet e None (Some []) w =
     (Inl (HTTPException 400 [S ''Please provide either a ZIP file or GitHub repository link'']), w)
   \<and> IngestorAgent_run e (Some zf) link tmp w = IngestorAgent_run e (Some zf) None tmp w
   \<and> convert_vb6_to_dotnet e (Some zf) link w = convert_vb6_to_dotnet e (Some zf) None w"
  by (simp add: convert_vb6_to_dotnet_def MCP_run_def MCP_run_try_def IngestorAgent_run_def)

section \<open>The path check of the ingestor\<close>

text \<open>An entry that climbs out of the working directory is rejected before extraction.\<close>

lemma traversal_rejected:
  "fst (IngestorAgent_run demo_env
          (Some \<lparr>upload_size = Some 2048, upload_archive = Zip [''Form1.frm'', ''../../evil.bas'']\<rparr>)
          None ''/tmp/tmpab12cd3e'' w)
     = Inl (HTTPException 400 [S ''Path traversal detected in ZIP file''])"
  by (simp add: IngestorAgent_run_def ingest_zip_def eval_defs)

text \<open>
  Claim C4 fails on the code. The check compares the resolved path with the directory
  as strings, so an entry that resolves into a sibling directory whose name extends the
  working directory's name passes: for the working directory \<^verbatim>\<open>/tmp/tmpab12cd3e\<close>
  the entry \<^verbatim>\<open>../tmpab12cd3e_x/evil.bas\<close> resolves to
  \<^verbatim>\<open>/tmp/tmpab12cd3e_x/evil.bas\<close>, outside the directory, yet ingestion raises no
  error, reports the archive as extracted and returns the file for processing.
\<close>

theorem sibling_directory_entry_is_extracted:
  "\<not> within_dir (abspath ''/srv/app'' ''/tmp/tmpab12cd3e'')
        (abspath ''/srv/app'' (path_join ''/tmp/tmpab12cd3e'' ''../tmpab12cd3e_x/evil.bas''))
   \<and> entry_passes_check ''/srv/app'' ''/tmp/tmpab12cd3e'' ''../tmpab12cd3e_x/evil.bas''
   \<and> IngestorAgent_run
        (demo_env\<lparr>walk := [(''/tmp/tmpab12cd3e'', [''upload.zip'']),
                            (''/tmp/tmpab12cd3e/tmpab12cd3e_x'', [''evil.bas''])]\<rparr>)
        (Some \<lparr>upload_size = Some 2048, upload_archive = Zip [''../tmpab12cd3e_x/evil.bas'']\<rparr>)
        None ''/tmp/tmpab12cd3e'' world_init
      = (Inr [\<lparr>path = ''/tmp/tmpab12cd3e/tmpab12cd3e_x/evil.bas'', name = ''evil.bas''\<rparr>],
         set_state IngestorAgent COMPLETED [S ''Found '', N 1, S '' VB6 files to process'']
           (set_state IngestorAgent RUNNING [S ''Successfully extracted ZIP file'']
             (set_state IngestorAgent RUNNING [S ''Saving uploaded ZIP file'']
               (set_state IngestorAgent RUNNING [S ''Starting ingestion process''] world_init))))"
  by (simp add: IngestorAgent_run_def ingest_zip_def eval_defs within_dir_def)

section \<open>Failure of a run\<close>













section \<open>Comparing two runs\<close>



lemma emit_queue_eq:
  "queue (emit r h) =
     (if is_completed_update r \<and> total_stages h = 0 then queue h
      else queue h @
        [\<lparr>event_type = (case r_event_type r of None \<Rightarrow> ''log'' | Some t \<Rightarrow> t),
          level = levelname r, message = msg r,
          stage = (case r_stage r of None \<Rightarrow> ''general'' | Some s \<Rightarrow> s),
          agent = r_agent r, state = r_state r,
          current_agent = h_current_agent (emit r h), progress = h_progress (emit r h),
          stage_progress =
            get_stage_progress (case r_stage r of None \<Rightarrow> ''general'' | Some s \<Rightarrow> s) (r_state r),
          stage_description =
            (case stage_descriptions
                    (py_lower (case r_stage r of None \<Rightarrow> ''general'' | Some s \<Rightarrow> s)) of
               None \<Rightarrow> ''General processing'' | Some d \<Rightarrow> d)\<rparr>])"
  by (cases "r_event_type r") (simp_all add: emit_def Let_def is_completed_update_def)











lemma same_result_pair [simp]:
  "same_result (r, w) (r', w') = (r = r' \<and> same_outcome w w')"
  by (simp add: same_result_def)


















section \<open>Which files a run parses\<close>

lemma parse_start_None [simp]: "parse_start m None st = []"
  by (auto simp: parse_start_def split: list.splits fmt.splits)

lemma parse_start_default [simp]: "parse_start [S a, S b, S c] ag st = []"
  by (simp add: parse_start_def)

lemma parsed_files_logger_log:
  "total_stages (sse_handler w) = 6 \<Longrightarrow>
   parsed_files (queue (sse_handler (logger_log l m et stg ag st w))) =
     parsed_files (queue (sse_handler w)) @ parse_start m ag st"
  by (simp add: logger_log_def emit_queue_eq parsed_files_def parse_started_def)

lemma parsed_files_log_line [simp]:
  "total_stages (sse_handler w) = 6 \<Longrightarrow>
   parsed_files (queue (sse_handler (log_line l m stg w))) = parsed_files (queue (sse_handler w))"
  by (simp add: log_line_def parsed_files_logger_log)

lemma parsed_files_set_pipeline_state [simp]:
  "total_stages (sse_handler w) = 6 \<Longrightarrow>
   parsed_files (queue (sse_handler (set_pipeline_state s m w))) =
     parsed_files (queue (sse_handler w))"
  by (auto simp: set_pipeline_state_def parsed_files_logger_log parse_start_def
           split: list.splits fmt.splits)

lemma parsed_files_set_state:
  "total_stages (sse_handler w) = 6 \<Longrightarrow>
   parsed_files (queue (sse_handler (set_state a s m w))) =
     parsed_files (queue (sse_handler w))
       @ (if m = [] then [] else parse_start m (Some (agent_name a)) (Some (state_value s)))"
  by (simp add: set_state_def parsed_files_logger_log)

lemma parsed_files_store [simp]:
  "parsed_files (queue (sse_handler (w\<lparr>OUTPUT_DIR := d\<rparr>))) = parsed_files (queue (sse_handler w))"
  by simp

lemma total_stages_unlink [simp]:
  "total_stages (sse_handler (unlink_if_exists cid w)) = total_stages (sse_handler w)"
  by (simp add: unlink_if_exists_def split: option.splits)

lemma parsed_files_unlink [simp]:
  "parsed_files (queue (sse_handler (unlink_if_exists cid w))) = parsed_files (queue (sse_handler w))"
  by (simp add: unlink_if_exists_def split: option.splits)

lemma total_stages_lm_attempts [simp]:
  "total_stages (sse_handler (snd (lm_attempts call k a w))) = total_stages (sse_handler w)"
  by (induction k arbitrary: a w) (simp_all add: Let_def split: sum.splits)

lemma parsed_files_lm_attempts [simp]:
  "total_stages (sse_handler w) = 6 \<Longrightarrow>
   parsed_files (queue (sse_handler (snd (lm_attempts call k a w)))) =
     parsed_files (queue (sse_handler w))"
  by (induction k arbitrary: a w) (simp_all add: Let_def split: sum.splits)

lemmas quiet_simps = Let_def case_prod_beta parsed_files_set_state parse_start_def

lemma total_stages_CustomAzureOpenAI_forward [simp]:
  "total_stages (sse_handler (snd (CustomAzureOpenAI_forward e p w))) = total_stages (sse_handler w)"
  by (simp add: CustomAzureOpenAI_forward_def)

lemma parsed_files_CustomAzureOpenAI_forward [simp]:
  "total_stages (sse_handler w) = 6 \<Longrightarrow>
   parsed_files (queue (sse_handler (snd (CustomAzureOpenAI_forward e p w)))) =
     parsed_files (queue (sse_handler w))"
  by (simp add: CustomAzureOpenAI_forward_def)

lemma total_stages_ParserModule_forward [simp]:
  "total_stages (sse_handler (snd (ParserModule_forward e code fname w))) = total_stages (sse_handler w)"
  by (simp add: ParserModule_forward_def quiet_simps split: sum.splits option.splits list.splits)

lemma parsed_files_ParserModule_forward [simp]:
  "total_stages (sse_handler w) = 6 \<Longrightarrow>
   parsed_files (queue (sse_handler (snd (ParserModule_forward e code fname w)))) =
     parsed_files (queue (sse_handler w))"
  by (simp add: ParserModule_forward_def quiet_simps split: sum.splits option.splits list.splits)

lemma total_stages_ParserAgent_run [simp]:
  "total_stages (sse_handler (snd (ParserAgent_run e f w))) = total_stages (sse_handler w)"
  by (simp add: ParserAgent_run_def ParserAgent_try_def quiet_simps split: sum.splits)


lemma total_stages_parse_all [simp]:
  "total_stages (sse_handler (snd (parse_all e fs w))) = total_stages (sse_handler w)"
  by (induction fs arbitrary: w) (simp_all add: case_prod_beta split: sum.splits)


lemma total_stages_ContextAnalyzerModule_forward [simp]:
  "total_stages (sse_handler (snd (ContextAnalyzerModule_forward e ps w))) = total_stages (sse_handler w)"
  by (simp add: ContextAnalyzerModule_forward_def quiet_simps split: sum.splits option.splits list.splits)

lemma parsed_files_ContextAnalyzerModule_forward [simp]:
  "total_stages (sse_handler w) = 6 \<Longrightarrow>
   parsed_files (queue (sse_handler (snd (ContextAnalyzerModule_forward e ps w)))) =
     parsed_files (queue (sse_handler w))"
  by (simp add: ContextAnalyzerModule_forward_def quiet_simps split: sum.splits option.splits list.splits)

lemma total_stages_ContextAnalyzerAgent_run [simp]:
  "total_stages (sse_handler (snd (ContextAnalyzerAgent_run e ps w))) = total_stages (sse_handler w)"
  by (simp add: ContextAnalyzerAgent_run_def quiet_simps split: sum.splits)

lemma parsed_files_ContextAnalyzerAgent_run [simp]:
  "total_stages (sse_handler w) = 6 \<Longrightarrow>
   parsed_files (queue (sse_handler (snd (ContextAnalyzerAgent_run e ps w)))) =
     parsed_files (queue (sse_handler w))"
  by (simp add: ContextAnalyzerAgent_run_def quiet_simps split: sum.splits)

lemma total_stages_SummarizerAgent_run [simp]:
  "total_stages (sse_handler (snd (SummarizerAgent_run e ps w))) = total_stages (sse_handler w)"
  by (simp add: SummarizerAgent_run_def quiet_simps split: sum.splits)

lemma parsed_files_SummarizerAgent_run [simp]:
  "total_stages (sse_handler w) = 6 \<Longrightarrow>
   parsed_files (queue (sse_handler (snd (SummarizerAgent_run e ps w)))) =
     parsed_files (queue (sse_handler w))"
  by (simp add: SummarizerAgent_run_def quiet_simps split: sum.splits)

lemma total_stages_build_complete_project [simp]:
  "total_stages (sse_handler (snd (build_complete_project t v w))) = total_stages (sse_handler w)"
  by (simp add: build_complete_project_def quiet_simps split: option.splits)

lemma parsed_files_build_complete_project [simp]:
  "total_stages (sse_handler w) = 6 \<Longrightarrow>
   parsed_files (queue (sse_handler (snd (build_complete_project t v w)))) =
     parsed_files (queue (sse_handler w))"
  by (simp add: build_complete_project_def quiet_simps split: option.splits)

lemma total_stages_GeneratorModule_fallback [simp]:
  "total_stages (sse_handler (snd (GeneratorModule_fallback e y c ex w))) = total_stages (sse_handler w)"
  by (simp add: GeneratorModule_fallback_def quiet_simps split: sum.splits)

lemma parsed_files_GeneratorModule_fallback [simp]:
  "total_stages (sse_handler w) = 6 \<Longrightarrow>
   parsed_files (queue (sse_handler (snd (GeneratorModule_fallback e y c ex w)))) =
     parsed_files (queue (sse_handler w))"
  by (simp add: GeneratorModule_fallback_def quiet_simps split: sum.splits)

lemma total_stages_GeneratorModule_forward [simp]:
  "total_stages (sse_handler (snd (GeneratorModule_forward e y c w))) = total_stages (sse_handler w)"
  by (simp add: GeneratorModule_forward_def quiet_simps split: sum.splits)

lemma parsed_files_GeneratorModule_forward [simp]:
  "total_stages (sse_handler w) = 6 \<Longrightarrow>
   parsed_files (queue (sse_handler (snd (GeneratorModule_forward e y c w)))) =
     parsed_files (queue (sse_handler w))"
  by (simp add: GeneratorModule_forward_def quiet_simps split: sum.splits)

lemma total_stages_GeneratorAgent_run [simp]:
  "total_stages (sse_handler (snd (GeneratorAgent_run e y c w))) = total_stages (sse_handler w)"
  by (simp add: GeneratorAgent_run_def quiet_simps split: sum.splits)

lemma parsed_files_GeneratorAgent_run [simp]:
  "total_stages (sse_handler w) = 6 \<Longrightarrow>
   parsed_files (queue (sse_handler (snd (GeneratorAgent_run e y c w)))) =
     parsed_files (queue (sse_handler w))"
  by (simp add: GeneratorAgent_run_def quiet_simps split: sum.splits)

lemma total_stages_FileBuilderAgent_try [simp]:
  "total_stages (sse_handler (snd (FileBuilderAgent_try e cid cf w))) = total_stages (sse_handler w)"
  by (simp add: FileBuilderAgent_try_def quiet_simps split: option.splits pack_outcome.splits)

lemma parsed_files_FileBuilderAgent_try [simp]:
  "total_stages (sse_handler w) = 6 \<Longrightarrow>
   parsed_files (queue (sse_handler (snd (FileBuilderAgent_try e cid cf w)))) =
     parsed_files (queue (sse_handler w))"
  by (simp add: FileBuilderAgent_try_def quiet_simps split: option.splits pack_outcome.splits)

lemma total_stages_FileBuilderAgent_run [simp]:
  "total_stages (sse_handler (snd (FileBuilderAgent_run e cf w))) = total_stages (sse_handler w)"
  by (simp add: FileBuilderAgent_run_def quiet_simps split: sum.splits)

lemma parsed_files_FileBuilderAgent_run [simp]:
  "total_stages (sse_handler w) = 6 \<Longrightarrow>
   parsed_files (queue (sse_handler (snd (FileBuilderAgent_run e cf w)))) =
     parsed_files (queue (sse_handler w))"
  by (simp add: FileBuilderAgent_run_def quiet_simps split: sum.splits)

lemma total_stages_ingest_zip [simp]:
  "total_stages (sse_handler (snd (ingest_zip e zf tmp w))) = total_stages (sse_handler w)"
  by (simp add: ingest_zip_def quiet_simps split: option.splits archive.splits)

lemma parsed_files_ingest_zip [simp]:
  "total_stages (sse_handler w) = 6 \<Longrightarrow>
   parsed_files (queue (sse_handler (snd (ingest_zip e zf tmp w)))) =
     parsed_files (queue (sse_handler w))"
  by (simp add: ingest_zip_def quiet_simps split: option.splits archive.splits)

lemma total_stages_ingest_github [simp]:
  "total_stages (sse_handler (snd (ingest_github e link tmp w))) = total_stages (sse_handler w)"
  by (simp add: ingest_github_def quiet_simps split: option.splits)

lemma parsed_files_ingest_github [simp]:
  "total_stages (sse_handler w) = 6 \<Longrightarrow>
   parsed_files (queue (sse_handler (snd (ingest_github e link tmp w)))) =
     parsed_files (queue (sse_handler w))"
  by (simp add: ingest_github_def quiet_simps split: option.splits)

lemma total_stages_IngestorAgent_run [simp]:
  "total_stages (sse_handler (snd (IngestorAgent_run e z l tmp w))) = total_stages (sse_handler w)"
  by (simp add: IngestorAgent_run_def quiet_simps split: sum.splits option.splits)

lemma parsed_files_IngestorAgent_run [simp]:
  "total_stages (sse_handler w) = 6 \<Longrightarrow>
   parsed_files (queue (sse_handler (snd (IngestorAgent_run e z l tmp w)))) =
     parsed_files (queue (sse_handler w))"
  by (simp add: IngestorAgent_run_def quiet_simps split: sum.splits option.splits)

lemma total_stages_mark_failed [simp]:
  "total_stages (sse_handler (mark_failed ex w)) = total_stages (sse_handler w)"
  by (simp add: mark_failed_def agents_def)

lemma parsed_files_mark_failed [simp]:
  "total_stages (sse_handler w) = 6 \<Longrightarrow>
   parsed_files (queue (sse_handler (mark_failed ex w))) = parsed_files (queue (sse_handler w))"
  by (simp add: mark_failed_def agents_def parsed_files_set_state)

section \<open>The processing cap\<close>

lemma CustomAzureOpenAI_forward_walk [simp]:
  "CustomAzureOpenAI_forward (e\<lparr>walk := x\<rparr>) p w = CustomAzureOpenAI_forward e p w"
  by (simp add: CustomAzureOpenAI_forward_def Let_def
        cong: sum.case_cong option.case_cong list.case_cong prod.case_cong
          pack_outcome.case_cong archive.case_cong if_cong)

lemma ParserModule_forward_walk [simp]:
  "ParserModule_forward (e\<lparr>walk := x\<rparr>) code fname w = ParserModule_forward e code fname w"
  by (simp add: ParserModule_forward_def Let_def
        cong: sum.case_cong option.case_cong list.case_cong prod.case_cong
          pack_outcome.case_cong archive.case_cong if_cong)

lemma ParserAgent_try_walk [simp]:
  "ParserAgent_try (e\<lparr>walk := x\<rparr>) f w = ParserAgent_try e f w"
  by (simp add: ParserAgent_try_def truncate_code_def Let_def
        cong: sum.case_cong option.case_cong list.case_cong prod.case_cong
          pack_outcome.case_cong archive.case_cong if_cong)

lemma ParserAgent_run_walk [simp]:
  "ParserAgent_run (e\<lparr>walk := x\<rparr>) f w = ParserAgent_run e f w"
  by (simp add: ParserAgent_run_def Let_def
        cong: sum.case_cong option.case_cong list.case_cong prod.case_cong
          pack_outcome.case_cong archive.case_cong if_cong)

lemma parse_all_walk [simp]:
  "parse_all (e\<lparr>walk := x\<rparr>) fs w = parse_all e fs w"
  by (induction fs arbitrary: w)
     (simp_all cong: sum.case_cong prod.case_cong)

lemma ContextAnalyzerModule_forward_walk [simp]:
  "ContextAnalyzerModule_forward (e\<lparr>walk := x\<rparr>) ps w = ContextAnalyzerModule_forward e ps w"
  by (simp add: ContextAnalyzerModule_forward_def Let_def
        cong: sum.case_cong option.case_cong list.case_cong prod.case_cong
          pack_outcome.case_cong archive.case_cong if_cong)

lemma ContextAnalyzerAgent_run_walk [simp]:
  "ContextAnalyzerAgent_run (e\<lparr>walk := x\<rparr>) ps w = ContextAnalyzerAgent_run e ps w"
  by (simp add: ContextAnalyzerAgent_run_def Let_def
        cong: sum.case_cong option.case_cong list.case_cong prod.case_cong
          pack_outcome.case_cong archive.case_cong if_cong)

lemma SummarizerAgent_run_walk [simp]:
  "SummarizerAgent_run (e\<lparr>walk := x\<rparr>) ps w = SummarizerAgent_run e ps w"
  by (simp add: SummarizerAgent_run_def Let_def
        cong: sum.case_cong option.case_cong list.case_cong prod.case_cong
          pack_outcome.case_cong archive.case_cong if_cong)

lemma GeneratorModule_fallback_walk [simp]:
  "GeneratorModule_fallback (e\<lparr>walk := x\<rparr>) y c ex w = GeneratorModule_fallback e y c ex w"
  by (simp add: GeneratorModule_fallback_def Let_def
        cong: sum.case_cong option.case_cong list.case_cong prod.case_cong
          pack_outcome.case_cong archive.case_cong if_cong)

lemma GeneratorModule_forward_walk [simp]:
  "GeneratorModule_forward (e\<lparr>walk := x\<rparr>) y c w = GeneratorModule_forward e y c w"
  by (simp add: GeneratorModule_forward_def Let_def
        cong: sum.case_cong option.case_cong list.case_cong prod.case_cong
          pack_outcome.case_cong archive.case_cong if_cong)

lemma GeneratorAgent_run_walk [simp]:
  "GeneratorAgent_run (e\<lparr>walk := x\<rparr>) y c w = GeneratorAgent_run e y c w"
  by (simp add: GeneratorAgent_run_def Let_def
        cong: sum.case_cong option.case_cong list.case_cong prod.case_cong
          pack_outcome.case_cong archive.case_cong if_cong)

lemma FileBuilderAgent_try_walk [simp]:
  "FileBuilderAgent_try (e\<lparr>walk := x\<rparr>) cid cf w = FileBuilderAgent_try e cid cf w"
  by (simp add: FileBuilderAgent_try_def Let_def
        cong: sum.case_cong option.case_cong list.case_cong prod.case_cong
          pack_outcome.case_cong archive.case_cong if_cong)

lemma FileBuilderAgent_run_walk [simp]:
  "FileBuilderAgent_run (e\<lparr>walk := x\<rparr>) cf w = FileBuilderAgent_run e cf w"
  by (simp add: FileBuilderAgent_run_def Let_def
        cong: sum.case_cong option.case_cong list.case_cong prod.case_cong
          pack_outcome.case_cong archive.case_cong if_cong)

lemma MCP_run_files_walk [simp]:
  "MCP_run_files (e\<lparr>walk := x\<rparr>) files w = MCP_run_files e files w"
  by (simp add: MCP_run_files_def MCP_run_stages_def Let_def
        cong: sum.case_cong option.case_cong list.case_cong prod.case_cong
          pack_outcome.case_cong archive.case_cong if_cong)

lemma ingest_zip_walk [simp]:
  "ingest_zip (e\<lparr>walk := x\<rparr>) zf tmp w = ingest_zip e zf tmp w"
  by (simp add: ingest_zip_def Let_def
        cong: sum.case_cong option.case_cong list.case_cong prod.case_cong
          pack_outcome.case_cong archive.case_cong if_cong)

lemma ingest_github_walk [simp]:
  "ingest_github (e\<lparr>walk := x\<rparr>) link tmp w = ingest_github e link tmp w"
  by (simp add: ingest_github_def Let_def
        cong: sum.case_cong option.case_cong list.case_cong prod.case_cong
          pack_outcome.case_cong archive.case_cong if_cong)











lemma total_stages_MCP_run_stages [simp]:
  "total_stages (sse_handler (snd (MCP_run_stages e fs w))) = total_stages (sse_handler w)"
  by (simp add: MCP_run_stages_def quiet_simps split: sum.splits)


lemma total_stages_MCP_run_files [simp]:
  "total_stages (sse_handler (snd (MCP_run_files e files w))) = total_stages (sse_handler w)"
  by (simp add: MCP_run_files_def quiet_simps)





lemma total_stages_reset [simp]:
  "total_stages (sse_handler
     (fold (\<lambda>a w'. if a \<noteq> IngestorAgent then set_state a IDLE [] w' else w') agents w))
   = total_stages (sse_handler w)"
  by (simp add: agents_def)

lemma parsed_files_reset [simp]:
  "total_stages (sse_handler w) = 6 \<Longrightarrow>
   parsed_files (queue (sse_handler
     (fold (\<lambda>a w'. if a \<noteq> IngestorAgent then set_state a IDLE [] w' else w') agents w)))
   = parsed_files (queue (sse_handler w))"
  by (simp add: agents_def parsed_files_set_state)

lemma cap_warnings_logger_log:
  "\<not> (l = ''WARNING'' \<and> stg = Some ''pipeline'') \<Longrightarrow>
   cap_warnings (logger_log l m et stg ag st w) = cap_warnings w"
  by (cases stg) (auto simp: cap_warnings_def logger_log_def emit_queue_eq cap_warning_def)

lemma cap_warnings_log_line [simp]:
  "\<not> (l = ''WARNING'' \<and> stg = ''pipeline'') \<Longrightarrow>
   cap_warnings (log_line l m stg w) = cap_warnings w"
  by (simp add: log_line_def cap_warnings_logger_log)

lemma cap_warnings_set_state [simp]: "cap_warnings (set_state a s m w) = cap_warnings w"
proof -
  have "cap_warnings (logger_log ''INFO'' m' et stg ag st w') = cap_warnings w'"
    if "cap_warnings w' = cap_warnings w" for m' et stg ag st w'
    using that by (simp add: cap_warnings_logger_log)
  moreover have "cap_warnings (w\<lparr>agent_state := (agent_state w)(a := s)\<rparr>) = cap_warnings w"
    by (simp add: cap_warnings_def)
  ultimately show ?thesis by (simp add: set_state_def)
qed

lemma cap_warnings_set_pipeline_state [simp]:
  "cap_warnings (set_pipeline_state s m w) = cap_warnings w"
  by (simp add: set_pipeline_state_def cap_warnings_logger_log)

lemma cap_warnings_store [simp]: "cap_warnings (w\<lparr>OUTPUT_DIR := d\<rparr>) = cap_warnings w"
  by (simp add: cap_warnings_def)

lemma cap_warnings_unlink [simp]: "cap_warnings (unlink_if_exists cid w) = cap_warnings w"
  by (simp add: unlink_if_exists_def split: option.splits)


lemma cap_warnings_lm_attempts [simp]:
  "cap_warnings (snd (lm_attempts call k a w)) = cap_warnings w"
  by (induction k arbitrary: a w) (simp_all add: Let_def split: sum.splits)

lemma cap_warnings_CustomAzureOpenAI_forward [simp]:
  "cap_warnings (snd (CustomAzureOpenAI_forward e p w)) = cap_warnings w"
  by (simp add: CustomAzureOpenAI_forward_def Let_def case_prod_beta)

lemma cap_warnings_ParserModule_forward [simp]:
  "cap_warnings (snd (ParserModule_forward e code fname w)) = cap_warnings w"
  by (simp add: ParserModule_forward_def Let_def case_prod_beta split: sum.splits option.splits list.splits)

lemma cap_warnings_ParserAgent_try [simp]:
  "cap_warnings (snd (ParserAgent_try e f w)) = cap_warnings w"
  by (simp add: ParserAgent_try_def Let_def case_prod_beta split: sum.splits)

lemma cap_warnings_ParserAgent_run [simp]:
  "cap_warnings (snd (ParserAgent_run e f w)) = cap_warnings w"
  by (simp add: ParserAgent_run_def Let_def case_prod_beta split: sum.splits)

lemma cap_warnings_parse_all [simp]:
  "cap_warnings (snd (parse_all e fs w)) = cap_warnings w"
  by (induction fs arbitrary: w) (simp_all add: case_prod_beta split: sum.splits)

lemma cap_warnings_ContextAnalyzerModule_forward [simp]:
  "cap_warnings (snd (ContextAnalyzerModule_forward e ps w)) = cap_warnings w"
  by (simp add: ContextAnalyzerModule_forward_def Let_def case_prod_beta split: sum.splits option.splits list.splits)

lemma cap_warnings_ContextAnalyzerAgent_run [simp]:
  "cap_warnings (snd (ContextAnalyzerAgent_run e ps w)) = cap_warnings w"
  by (simp add: ContextAnalyzerAgent_run_def Let_def case_prod_beta split: sum.splits)

lemma cap_warnings_SummarizerAgent_run [simp]:
  "cap_warnings (snd (SummarizerAgent_run e ps w)) = cap_warnings w"
  by (simp add: SummarizerAgent_run_def Let_def case_prod_beta split: sum.splits)

lemma cap_warnings_build_complete_project [simp]:
  "cap_warnings (snd (build_complete_project t v w)) = cap_warnings w"
  by (simp add: build_complete_project_def Let_def case_prod_beta split: option.splits)

lemma cap_warnings_GeneratorModule_fallback [simp]:
  "cap_warnings (snd (GeneratorModule_fallback e y c ex w)) = cap_warnings w"
  by (simp add: GeneratorModule_fallback_def Let_def case_prod_beta split: sum.splits)

lemma cap_warnings_GeneratorModule_forward [simp]:
  "cap_warnings (snd (GeneratorModule_forward e y c w)) = cap_warnings w"
  by (simp add: GeneratorModule_forward_def Let_def case_prod_beta split: sum.splits)

lemma cap_warnings_GeneratorAgent_run [simp]:
  "cap_warnings (snd (GeneratorAgent_run e y c w)) = cap_warnings w"
  by (simp add: GeneratorAgent_run_def Let_def case_prod_beta split: sum.splits)

lemma cap_warnings_FileBuilderAgent_try [simp]:
  "cap_warnings (snd (FileBuilderAgent_try e cid cf w)) = cap_warnings w"
  by (simp add: FileBuilderAgent_try_def Let_def case_prod_beta split: option.splits pack_outcome.splits)

lemma cap_warnings_FileBuilderAgent_run [simp]:
  "cap_warnings (snd (FileBuilderAgent_run e cf w)) = cap_warnings w"
  by (simp add: FileBuilderAgent_run_def Let_def case_prod_beta split: sum.splits)

lemma cap_warnings_ingest_zip [simp]:
  "cap_warnings (snd (ingest_zip e zf tmp w)) = cap_warnings w"
  by (simp add: ingest_zip_def Let_def case_prod_beta split: option.splits archive.splits)

lemma cap_warnings_ingest_github [simp]:
  "cap_warnings (snd (ingest_github e link tmp w)) = cap_warnings w"
  by (simp add: ingest_github_def Let_def case_prod_beta split: option.splits)

lemma cap_warnings_IngestorAgent_run [simp]:
  "cap_warnings (snd (IngestorAgent_run e z l tmp w)) = cap_warnings w"
  by (simp add: IngestorAgent_run_def Let_def case_prod_beta split: sum.splits option.splits)

lemma cap_warnings_MCP_run_stages [simp]:
  "cap_warnings (snd (MCP_run_stages e fs w)) = cap_warnings w"
  by (simp add: MCP_run_stages_def Let_def case_prod_beta split: sum.splits)

lemma cap_warnings_mark_failed [simp]: "cap_warnings (mark_failed ex w) = cap_warnings w"
  by (simp add: mark_failed_def agents_def)

lemma cap_warnings_reset [simp]:
  "cap_warnings (fold (\<lambda>a w'. if a \<noteq> IngestorAgent then set_state a IDLE [] w' else w') agents w)
   = cap_warnings w"
  by (simp add: agents_def)






section \<open>Progress during a run\<close>

lemma handler_inv_logger_log [simp]:
  "handler_inv (sse_handler w) \<Longrightarrow> handler_inv (sse_handler (logger_log l m et stg ag st w))"
  by (simp add: logger_log_def handler_inv_emit)

lemma handler_inv_log_line [simp]:
  "handler_inv (sse_handler w) \<Longrightarrow> handler_inv (sse_handler (log_line l m stg w))"
  by (simp add: log_line_def)

lemma handler_inv_set_state [simp]:
  "handler_inv (sse_handler w) \<Longrightarrow> handler_inv (sse_handler (set_state a s m w))"
  by (simp add: set_state_def)

lemma handler_inv_set_pipeline_state [simp]:
  "handler_inv (sse_handler w) \<Longrightarrow> handler_inv (sse_handler (set_pipeline_state s m w))"
  by (simp add: set_pipeline_state_def)

lemma handler_inv_unlink [simp]:
  "handler_inv (sse_handler (unlink_if_exists cid w)) = handler_inv (sse_handler w)"
  by (simp add: unlink_if_exists_def split: option.splits)

lemma handler_inv_lm_attempts [simp]:
  "handler_inv (sse_handler w) \<Longrightarrow> handler_inv (sse_handler (snd (lm_attempts call k a w)))"
  by (induction k arbitrary: a w) (simp_all add: Let_def split: sum.splits)

lemma handler_inv_CustomAzureOpenAI_forward [simp]:
  "handler_inv (sse_handler w) \<Longrightarrow> handler_inv (sse_handler (snd (CustomAzureOpenAI_forward e p w)))"
  by (simp add: CustomAzureOpenAI_forward_def Let_def case_prod_beta)

lemma handler_inv_ParserModule_forward [simp]:
  "handler_inv (sse_handler w) \<Longrightarrow> handler_inv (sse_handler (snd (ParserModule_forward e code fname w)))"
  by (simp add: ParserModule_forward_def Let_def case_prod_beta split: sum.splits option.splits list.splits)

lemma handler_inv_ParserAgent_try [simp]:
  "handler_inv (sse_handler w) \<Longrightarrow> handler_inv (sse_handler (snd (ParserAgent_try e f w)))"
  by (simp add: ParserAgent_try_def Let_def case_prod_beta split: sum.splits)

lemma handler_inv_ParserAgent_run [simp]:
  "handler_inv (sse_handler w) \<Longrightarrow> handler_inv (sse_handler (snd (ParserAgent_run e f w)))"
  by (simp add: ParserAgent_run_def Let_def case_prod_beta split: sum.splits)

lemma handler_inv_parse_all [simp]:
  "handler_inv (sse_handler w) \<Longrightarrow> handler_inv (sse_handler (snd (parse_all e fs w)))"
  by (induction fs arbitrary: w) (simp_all add: case_prod_beta split: sum.splits)

lemma handler_inv_ContextAnalyzerModule_forward [simp]:
  "handler_inv (sse_handler w) \<Longrightarrow> handler_inv (sse_handler (snd (ContextAnalyzerModule_forward e ps w)))"
  by (simp add: ContextAnalyzerModule_forward_def Let_def case_prod_beta split: sum.splits option.splits list.splits)

lemma handler_inv_ContextAnalyzerAgent_run [simp]:
  "handler_inv (sse_handler w) \<Longrightarrow> handler_inv (sse_handler (snd (ContextAnalyzerAgent_run e ps w)))"
  by (simp add: ContextAnalyzerAgent_run_def Let_def case_prod_beta split: sum.splits)

lemma handler_inv_SummarizerAgent_run [simp]:
  "handler_inv (sse_handler w) \<Longrightarrow> handler_inv (sse_handler (snd (SummarizerAgent_run e ps w)))"
  by (simp add: SummarizerAgent_run_def Let_def case_prod_beta split: sum.splits)

lemma handler_inv_build_complete_project [simp]:
  "handler_inv (sse_handler w) \<Longrightarrow> handler_inv (sse_handler (snd (build_complete_project t v w)))"
  by (simp add: build_complete_project_def Let_def case_prod_beta split: option.splits)

lemma handler_inv_GeneratorModule_fallback [simp]:
  "handler_inv (sse_handler w) \<Longrightarrow> handler_inv (sse_handler (snd (GeneratorModule_fallback e y c ex w)))"
  by (simp add: GeneratorModule_fallback_def Let_def case_prod_beta split: sum.splits)

lemma handler_inv_GeneratorModule_forward [simp]:
  "handler_inv (sse_handler w) \<Longrightarrow> handler_inv (sse_handler (snd (GeneratorModule_forward e y c w)))"
  by (simp add: GeneratorModule_forward_def Let_def case_prod_beta split: sum.splits)

lemma handler_inv_GeneratorAgent_run [simp]:
  "handler_inv (sse_handler w) \<Longrightarrow> handler_inv (sse_handler (snd (GeneratorAgent_run e y c w)))"
  by (simp add: GeneratorAgent_run_def Let_def case_prod_beta split: sum.splits)

lemma handler_inv_FileBuilderAgent_try [simp]:
  "handler_inv (sse_handler w) \<Longrightarrow> handler_inv (sse_handler (snd (FileBuilderAgent_try e cid cf w)))"
  by (simp add: FileBuilderAgent_try_def Let_def case_prod_beta split: option.splits pack_outcome.splits)

lemma handler_inv_FileBuilderAgent_run [simp]:
  "handler_inv (sse_handler w) \<Longrightarrow> handler_inv (sse_handler (snd (FileBuilderAgent_run e cf w)))"
  by (simp add: FileBuilderAgent_run_def Let_def case_prod_beta split: sum.splits)

lemma handler_inv_ingest_zip [simp]:
  "handler_inv (sse_handler w) \<Longrightarrow> handler_inv (sse_handler (snd (ingest_zip e zf tmp w)))"
  by (simp add: ingest_zip_def Let_def case_prod_beta split: option.splits archive.splits)

lemma handler_inv_ingest_github [simp]:
  "handler_inv (sse_handler w) \<Longrightarrow> handler_inv (sse_handler (snd (ingest_github e link tmp w)))"
  by (simp add: ingest_github_def Let_def case_prod_beta split: option.splits)

lemma handler_inv_IngestorAgent_run [simp]:
  "handler_inv (sse_handler w) \<Longrightarrow> handler_inv (sse_handler (snd (IngestorAgent_run e z l tmp w)))"
  by (simp add: IngestorAgent_run_def Let_def case_prod_beta split: sum.splits option.splits)

lemma handler_inv_MCP_run_stages [simp]:
  "handler_inv (sse_handler w) \<Longrightarrow> handler_inv (sse_handler (snd (MCP_run_stages e fs w)))"
  by (simp add: MCP_run_stages_def Let_def case_prod_beta split: sum.splits)

lemma handler_inv_MCP_run_files [simp]:
  "handler_inv (sse_handler w) \<Longrightarrow> handler_inv (sse_handler (snd (MCP_run_files e files w)))"
  by (simp add: MCP_run_files_def Let_def case_prod_beta)

lemma handler_inv_MCP_run_try [simp]:
  "handler_inv (sse_handler w) \<Longrightarrow> handler_inv (sse_handler (snd (MCP_run_try e z l w)))"
  by (simp add: MCP_run_try_def agents_def Let_def case_prod_beta split: sum.splits)

lemma handler_inv_MCP_run [simp]:
  "handler_inv (sse_handler w) \<Longrightarrow> handler_inv (sse_handler (snd (MCP_run e z l w)))"
  by (simp add: MCP_run_def agents_def Let_def case_prod_beta split: sum.splits)


lemma handler_inv_emitted:
  assumes "handler_inv h1"
  shows "sorted (map progress (emitted h0 h1))
       \<and> list_all (\<lambda>ev. 0 \<le> progress ev \<and> progress ev \<le> 100) (emitted h0 h1)"
proof -
  from assms have s: "sorted (map progress (queue h1))" and top: "h_progress h1 \<le> 100"
    and q: "\<forall>ev \<in> set (queue h1). 0 \<le> progress ev \<and> progress ev \<le> h_progress h1"
    by (simp_all add: handler_inv_def list_all_iff)
  have "sorted (map progress (drop (length (queue h0)) (queue h1)))"
    using s by (simp add: drop_map [symmetric] sorted_wrt_drop)
  moreover have "0 \<le> progress ev \<and> progress ev \<le> 100"
    if "ev \<in> set (drop (length (queue h0)) (queue h1))" for ev
  proof -
    from that have "ev \<in> set (queue h1)" by (rule in_set_dropD)
    with q top show ?thesis by fastforce
  qed
  ultimately show ?thesis by (simp add: emitted_def list_all_iff)
qed

text \<open>
  Claim C6. Within a single run, the overall progress percentage carried by the
  successively emitted events is non-decreasing and lies between 0 and 100. The handler
  is created once per process, so a run starts from the state left by the records
  \<open>before\<close> it. First, for any records the handler processes from such a state, the
  events they put on the queue carry non-decreasing progress values, all in the range;
  second, so do the events emitted by a run of the orchestrator that starts from such a
  state.
\<close>

theorem progress_non_decreasing_in_range:
  "sorted (map progress (emitted (emit_all before SSELogHandler_init)
                                 (emit_all run (emit_all before SSELogHandler_init))))
   \<and> list_all (\<lambda>ev. 0 \<le> progress ev \<and> progress ev \<le> 100)
        (emitted (emit_all before SSELogHandler_init)
                 (emit_all run (emit_all before SSELogHandler_init)))
   \<and> (sse_handler w = emit_all before SSELogHandler_init \<longrightarrow>
        sorted (map progress (emitted (sse_handler w) (sse_handler (snd (MCP_run e z l w)))))
        \<and> list_all (\<lambda>ev. 0 \<le> progress ev \<and> progress ev \<le> 100)
             (emitted (sse_handler w) (sse_handler (snd (MCP_run e z l w)))))"
proof -
  let ?h0 = "emit_all before SSELogHandler_init"
  have h0: "handler_inv ?h0"
    by (simp add: handler_inv_emit_all handler_inv_init)
  then have "handler_inv (emit_all run ?h0)"
    by (rule handler_inv_emit_all)
  note first = handler_inv_emitted [OF this, of ?h0]
  have second: "sorted (map progress (emitted (sse_handler w) (sse_handler (snd (MCP_run e z l w)))))
        \<and> list_all (\<lambda>ev. 0 \<le> progress ev \<and> progress ev \<le> 100)
             (emitted (sse_handler w) (sse_handler (snd (MCP_run e z l w))))"
    if "sse_handler w = ?h0"
  proof -
    from that h0 have "handler_inv (sse_handler w)" by simp
    then have "handler_inv (sse_handler (snd (MCP_run e z l w)))" by simp
    then show ?thesis by (rule handler_inv_emitted)
  qed
  from first second show ?thesis by blast
qed

theorem progress_non_decreasing_in_range_witness:
  "sse_handler world_init = emit_all [] SSELogHandler_init
   \<and> sorted (map progress
        (emitted (sse_handler world_init)
                 (sse_handler (snd (MCP_run demo_env (Some demo_zip) None world_init)))))
   \<and> list_all (\<lambda>ev. 0 \<le> progress ev \<and> progress ev \<le> 100)
        (emitted (sse_handler world_init)
                 (sse_handler (snd (MCP_run demo_env (Some demo_zip) None world_init))))"
  using progress_non_decreasing_in_range
          [where before = "[]" and run = "[]" and w = world_init and e = demo_env
             and z = "Some demo_zip" and l = None]
  by (simp add: world_init_def)

end
